theory Spec2Isabelle
  imports Complex_Main
begin

section \<open>Data model of the load-flow solvers\<close>

text \<open>
  The solvers of \<^verbatim>\<open>algorithms/newton_raphson.py\<close> and \<^verbatim>\<open>algorithms/gauss_seidel.py\<close>
  work on two numeric tables: the bus table and the line table.  A row of a table is
  modelled as a record whose fields are the columns the code reads.  Floating-point
  numbers are idealised as reals and complex numbers; integer-valued columns (bus
  identifiers, the type code read with \<^verbatim>\<open>astype(int)\<close>) are integers.  The columns 8
  and 9 of the bus table (Qmin, Qmax) exist only when the table has at least ten
  columns; otherwise the code uses the limits -inf and +inf, which is \<open>None\<close> here.

  Exceptions are values of \<open>py_error\<close>.  A division of Python complex numbers by
  zero raises; a division of numpy scalars or arrays by zero does not (it gives inf or
  nan), and the reals have no such values: where a statement below depends on the
  value of a quotient, it is made for a divisor other than zero.  Of what the code
  prints, the warnings and the messages about the run are modelled; the prints of
  intermediate values (\<^verbatim>\<open>print(J)\<close>, \<^verbatim>\<open>print(V)\<close>) are not.
\<close>

datatype py_error =
    ZeroDivisionError
  | IndexError
  | UnboundLocalError
  | AttributeError
  | RuntimeError py_error

record line_row =
  l_from :: int
  l_to :: int
  l_r :: real
  l_x :: real
  l_b :: real

record bus_row =
  b_no :: int
  b_type :: int
  b_vm :: real
  b_va :: real
  b_PG :: real
  b_QG :: real
  b_PL :: real
  b_QL :: real
  b_qlim :: "(real \<times> real) option"

type_synonym matrix = "complex list list"

text \<open>What the code prints or warns about, in the order of emission.\<close>

datatype message =
    ZeroImpedanceWarning int int
  | IllConditionedWarning nat
  | SingularJacobianError nat
  | NRNotConvergedWarning int
  | NRFinalMismatch real
  | GSNotConvergedWarning

subsection \<open>Arrays\<close>

text \<open>\<^verbatim>\<open>np.zeros((nb, nb), dtype=complex)\<close>\<close>

definition zeros :: "nat \<Rightarrow> matrix" where
  "zeros nb = replicate nb (replicate nb 0)"

text \<open>
  An index into an axis of length \<open>n\<close>: numpy counts a negative index from the end and
  raises IndexError outside \<open>-n \<le> k < n\<close>.
\<close>

definition np_index :: "nat \<Rightarrow> int \<Rightarrow> py_error + nat" where
  "np_index n k =
     (if 0 \<le> k \<and> k < int n then Inr (nat k)
      else if - int n \<le> k \<and> k < 0 then Inr (nat (k + int n))
      else Inl IndexError)"

text \<open>\<^verbatim>\<open>Ybus[i, j] += v\<close> on an \<open>nb \<times> nb\<close> array.\<close>

definition iadd :: "nat \<Rightarrow> matrix \<Rightarrow> int \<Rightarrow> int \<Rightarrow> complex \<Rightarrow> py_error + matrix" where
  "iadd nb Y i j v =
     (case np_index nb i of
        Inl e \<Rightarrow> Inl e
      | Inr a \<Rightarrow>
          (case np_index nb j of
             Inl e \<Rightarrow> Inl e
           | Inr b \<Rightarrow> Inr (Y[a := (Y ! a)[b := Y ! a ! b + v]])))"

section \<open>Admittance matrix\<close>

text \<open>
  The statements that both \<^verbatim>\<open>build_ybus\<close> methods share, from \<^verbatim>\<open>z = complex(r, x)\<close>
  to \<^verbatim>\<open>Ybus[j, i] -= y\<close>.  \<^verbatim>\<open>1 / z\<close> is a division of Python complex numbers, which
  raises ZeroDivisionError at \<open>z = 0\<close>.
\<close>

definition stamp_line :: "nat \<Rightarrow> matrix \<Rightarrow> line_row \<Rightarrow> py_error + matrix" where
  "stamp_line nb Y l =
     (let i = l_from l - 1; j = l_to l - 1;
          z = Complex (l_r l) (l_x l)
      in if z = 0 then Inl ZeroDivisionError
         else
           (let y = 1 / z; b_shunt = \<i> * of_real (l_b l) / 2
            in case iadd nb Y i i (y + b_shunt) of
                 Inl e \<Rightarrow> Inl e
               | Inr Y1 \<Rightarrow>
                   (case iadd nb Y1 j j (y + b_shunt) of
                      Inl e \<Rightarrow> Inl e
                    | Inr Y2 \<Rightarrow>
                        (case iadd nb Y2 i j (- y) of
                           Inl e \<Rightarrow> Inl e
                         | Inr Y3 \<Rightarrow> iadd nb Y3 j i (- y)))))"

text \<open>The loop of \<^verbatim>\<open>GaussSeidel.build_ybus\<close>: every line is stamped.\<close>

fun gs_ybus_loop :: "nat \<Rightarrow> line_row list \<Rightarrow> matrix \<Rightarrow> py_error + matrix" where
  "gs_ybus_loop nb [] Y = Inr Y"
| "gs_ybus_loop nb (l # ls) Y =
     (case stamp_line nb Y l of
        Inl e \<Rightarrow> Inl e
      | Inr Y' \<Rightarrow> gs_ybus_loop nb ls Y')"

text \<open>
  The loop of \<^verbatim>\<open>NRLoadFlow.build_ybus\<close>: a line with \<open>|r| < 1e-12\<close> and
  \<open>|x| < 1e-12\<close> gives a warning and is passed over (\<^verbatim>\<open>continue\<close>).
\<close>

fun nr_ybus_loop ::
  "nat \<Rightarrow> line_row list \<Rightarrow> matrix \<Rightarrow> message list \<Rightarrow> py_error + matrix \<times> message list" where
  "nr_ybus_loop nb [] Y w = Inr (Y, w)"
| "nr_ybus_loop nb (l # ls) Y w =
     (if \<bar>l_r l\<bar> < 1 / 10 ^ 12 \<and> \<bar>l_x l\<bar> < 1 / 10 ^ 12
      then nr_ybus_loop nb ls Y (w @ [ZeroImpedanceWarning (l_from l - 1 + 1) (l_to l - 1 + 1)])
      else (case stamp_line nb Y l of
              Inl e \<Rightarrow> Inl e
            | Inr Y' \<Rightarrow> nr_ybus_loop nb ls Y' w))"


section \<open>Newton-Raphson: \<^verbatim>\<open>NRLoadFlow\<close>\<close>

text \<open>
  One record of the iteration trace.  The code stores formatted strings of the voltage
  magnitudes and angles (in degrees); the model stores the numbers they are printed from.
\<close>

datatype voltage_display =
    PerBus "(real \<times> real) list"
  | Condensed real real real

datatype iter_record =
    NRRecord nat voltage_display real real
  | GSRecord nat real real "(real \<times> real) list"

text \<open>The tuple a \<^verbatim>\<open>solve\<close> method returns: \<^verbatim>\<open>return V, iteration_data\<close>.\<close>

datatype ret_item =
    Voltages (the_voltages: "complex list")
  | IterationData (the_trace: "iter_record list")

record NRLoadFlow =
  nr_bus_data :: "bus_row list"
  nr_line_data :: "line_row list"
  nr_use_sparse :: bool
  nr_Ybus :: "matrix option"
  nr_V_final :: "complex list option"
  nr_iter_data :: "iter_record list option"
  nr_n_buses :: nat

definition NRLoadFlow_init :: "bus_row list \<Rightarrow> line_row list \<Rightarrow> bool \<Rightarrow> NRLoadFlow" where
  "NRLoadFlow_init bus_data line_data use_sparse =
     \<lparr>nr_bus_data = bus_data, nr_line_data = line_data, nr_use_sparse = use_sparse,
      nr_Ybus = None, nr_V_final = None, nr_iter_data = None,
      nr_n_buses = length bus_data\<rparr>"

text \<open>
  \<^verbatim>\<open>NRLoadFlow.build_ybus\<close>.  Above 50 buses with \<^verbatim>\<open>use_sparse\<close> the code keeps the
  same entries in a sparse container; the model has one representation for both.
\<close>

definition NR_build_ybus :: "NRLoadFlow \<Rightarrow> py_error + matrix \<times> message list \<times> NRLoadFlow" where
  "NR_build_ybus self =
     (let nb = nr_n_buses self
      in case nr_ybus_loop nb (nr_line_data self) (zeros nb) [] of
           Inl e \<Rightarrow> Inl e
         | Inr (Y, w) \<Rightarrow> Inr (Y, w, self\<lparr>nr_Ybus := Some Y\<rparr>))"

definition radians :: "real \<Rightarrow> real" where
  "radians d = d * pi / 180"

definition degrees :: "real \<Rightarrow> real" where
  "degrees a = a * 180 / pi"

text \<open>The body of the initialisation loop of \<^verbatim>\<open>extract_bus_params\<close>, for one bus.\<close>

definition nr_initial_voltage :: "bus_row \<Rightarrow> complex" where
  "nr_initial_voltage b =
     (if b_type b = 1 then of_real (b_vm b) * cis (radians (b_va b))
      else if b_type b = 2 then Complex (b_vm b) 0
      else Complex (95 / 100) (- (5 / 100)))"

definition extract_bus_params ::
  "NRLoadFlow \<Rightarrow> int list \<times> complex list \<times> real list \<times> real list" where
  "extract_bus_params self =
     (let bus = nr_bus_data self;
          types = map b_type bus;
          V = map (\<lambda>i. nr_initial_voltage (bus ! i)) [0..<nr_n_buses self];
          P_spec = map (\<lambda>b. b_PG b - b_PL b) bus;
          Q_spec = map (\<lambda>b. b_QG b - b_QL b) bus
      in (types, V, P_spec, Q_spec))"

text \<open>\<^verbatim>\<open>angle_diff\<close> for the pair \<open>(i, k)\<close>: \<open>Y_angle[i, k] + V_angle[k] - V_angle[i]\<close>.\<close>

definition angle_diff :: "matrix \<Rightarrow> complex list \<Rightarrow> nat \<Rightarrow> nat \<Rightarrow> real" where
  "angle_diff Y V i k = Arg (Y ! i ! k) + Arg (V ! k) - Arg (V ! i)"

definition power_calculation_vectorized :: "matrix \<Rightarrow> complex list \<Rightarrow> real list \<times> real list" where
  "power_calculation_vectorized Y V =
     (let n = length V
      in (map (\<lambda>i. \<Sum>j\<leftarrow>[0..<n].
                    cmod (V ! i) * cmod (V ! j) * cmod (Y ! i ! j) * cos (angle_diff Y V i j))
              [0..<n],
          map (\<lambda>i. - (\<Sum>j\<leftarrow>[0..<n].
                    cmod (V ! i) * cmod (V ! j) * cmod (Y ! i ! j) * sin (angle_diff Y V i j)))
              [0..<n]))"

definition calc_power_mismatch ::
  "matrix \<Rightarrow> complex list \<Rightarrow> real list \<Rightarrow> real list \<Rightarrow> int list \<Rightarrow> real list" where
  "calc_power_mismatch Y V P_spec Q_spec types =
     (let (P, Q) = power_calculation_vectorized Y V
      in [P_spec ! i - P ! i. (i, t) \<leftarrow> enumerate 0 types, t = 2 \<or> t = 3] @
         [Q_spec ! i - Q ! i. (i, t) \<leftarrow> enumerate 0 types, t = 3])"

definition pq_buses :: "int list \<Rightarrow> nat list" where
  "pq_buses types = [i. (i, t) \<leftarrow> enumerate 0 types, t = 3]"

definition pv_buses :: "int list \<Rightarrow> nat list" where
  "pv_buses types = [i. (i, t) \<leftarrow> enumerate 0 types, t = 2]"

text \<open>
  The inner sums of the diagonal Jacobian entries: over \<open>k \<noteq> i\<close> with
  \<open>Y_mag[i, k] > 1e-10\<close>.
\<close>

definition neighbour_sum :: "matrix \<Rightarrow> nat \<Rightarrow> nat \<Rightarrow> (nat \<Rightarrow> real) \<Rightarrow> real" where
  "neighbour_sum Y n i f =
     (\<Sum>k\<leftarrow>[0..<n]. if k \<noteq> i \<and> cmod (Y ! i ! k) > 1 / 10 ^ 10 then f k else 0)"

definition J11 :: "matrix \<Rightarrow> complex list \<Rightarrow> nat \<Rightarrow> nat \<Rightarrow> real" where
  "J11 Y V i j =
     (if i = j
      then neighbour_sum Y (length V) i
             (\<lambda>k. cmod (V ! i) * cmod (V ! k) * cmod (Y ! i ! k) * sin (angle_diff Y V i k))
      else if cmod (Y ! i ! j) > 1 / 10 ^ 10
      then - cmod (V ! i) * cmod (V ! j) * cmod (Y ! i ! j) * sin (angle_diff Y V i j)
      else 0)"

definition J12 :: "matrix \<Rightarrow> complex list \<Rightarrow> nat \<Rightarrow> nat \<Rightarrow> real" where
  "J12 Y V i j =
     (if i = j
      then 2 * cmod (V ! i) * cmod (Y ! i ! i) * cos (Arg (Y ! i ! i)) +
           neighbour_sum Y (length V) i
             (\<lambda>k. cmod (V ! k) * cmod (Y ! i ! k) * cos (angle_diff Y V i k))
      else if cmod (Y ! i ! j) > 1 / 10 ^ 10
      then cmod (V ! i) * cmod (Y ! i ! j) * cos (angle_diff Y V i j)
      else 0)"

definition J21 :: "matrix \<Rightarrow> complex list \<Rightarrow> nat \<Rightarrow> nat \<Rightarrow> real" where
  "J21 Y V i j =
     (if i = j
      then - neighbour_sum Y (length V) i
               (\<lambda>k. cmod (V ! i) * cmod (V ! k) * cmod (Y ! i ! k) * cos (angle_diff Y V i k))
      else if cmod (Y ! i ! j) > 1 / 10 ^ 10
      then cmod (V ! i) * cmod (V ! j) * cmod (Y ! i ! j) * cos (angle_diff Y V i j)
      else 0)"

definition J22 :: "matrix \<Rightarrow> complex list \<Rightarrow> nat \<Rightarrow> nat \<Rightarrow> real" where
  "J22 Y V i j =
     (if i = j
      then - 2 * cmod (V ! i) * cmod (Y ! i ! i) * sin (Arg (Y ! i ! i)) -
           neighbour_sum Y (length V) i
             (\<lambda>k. cmod (V ! k) * cmod (Y ! i ! k) * sin (angle_diff Y V i k))
      else if cmod (Y ! i ! j) > 1 / 10 ^ 10
      then - cmod (V ! i) * cmod (Y ! i ! j) * sin (angle_diff Y V i j)
      else 0)"

definition build_jacobian_optimized :: "matrix \<Rightarrow> complex list \<Rightarrow> int list \<Rightarrow> real list list" where
  "build_jacobian_optimized Y V types =
     (let pq = pq_buses types; pv = pv_buses types; non_slack = pv @ pq
      in map (\<lambda>i. map (J11 Y V i) non_slack @ map (J12 Y V i) pq) non_slack @
         map (\<lambda>i. map (J21 Y V i) non_slack @ map (J22 Y V i) pq) pq)"


text \<open>
  The two library calls of the \<^verbatim>\<open>try\<close> block, \<^verbatim>\<open>np.linalg.cond\<close> and
  \<^verbatim>\<open>np.linalg.solve\<close>, are parameters of the model; \<open>None\<close> is the exception
  \<^verbatim>\<open>LinAlgError\<close>, which the code catches.
\<close>

record linalg =
  linalg_cond :: "real list list \<Rightarrow> real option"
  linalg_solve :: "real list list \<Rightarrow> real list \<Rightarrow> real list option"

text \<open>The local variables of \<^verbatim>\<open>NRLoadFlow.solve\<close>; \<open>nl_max_mis = None\<close> is an unbound name.\<close>

record nr_locals =
  nl_V :: "complex list"
  nl_iteration_data :: "iter_record list"
  nl_converged :: bool
  nl_max_mis :: "real option"
  nl_out :: "message list"

datatype 'a loop_step = Continue 'a | Break 'a

text \<open>\<^verbatim>\<open>np.clip(a, lo, hi)\<close>\<close>

definition clip :: "real \<Rightarrow> real \<Rightarrow> real \<Rightarrow> real" where
  "clip a lo hi = min (max a lo) hi"

text \<open>The loop "Update voltage angles for non-slack buses".\<close>

definition update_angles :: "real \<Rightarrow> real list \<Rightarrow> nat list \<Rightarrow> complex list \<Rightarrow> complex list" where
  "update_angles step_size dX non_slack V =
     fold (\<lambda>(idx, i) V.
             let delta_old = Arg (V ! i); V_mag = cmod (V ! i);
                 delta_new = delta_old + step_size * dX ! idx
             in V[i := of_real V_mag * cis delta_new])
          (enumerate 0 non_slack) V"

text \<open>The loop "Update voltage magnitudes for PQ buses only".\<close>

definition update_magnitudes ::
  "real \<Rightarrow> real list \<Rightarrow> nat \<Rightarrow> nat list \<Rightarrow> complex list \<Rightarrow> complex list" where
  "update_magnitudes step_size dX nns pq V =
     fold (\<lambda>(idx, i) V.
             let delta = Arg (V ! i); V_mag_old = cmod (V ! i);
                 V_mag_new = clip (V_mag_old + step_size * dX ! (nns + idx)) (1 / 2) (3 / 2)
             in V[i := of_real V_mag_new * cis delta])
          (enumerate 0 pq) V"

definition np_max :: "real list \<Rightarrow> real" where
  "np_max xs = Max (set xs)"

definition np_min :: "real list \<Rightarrow> real" where
  "np_min xs = Min (set xs)"

definition np_mean :: "real list \<Rightarrow> real" where
  "np_mean xs = sum_list xs / real (length xs)"

definition rms :: "real list \<Rightarrow> real" where
  "rms mismatch = sqrt (np_mean (map (\<lambda>m. m ^ 2) mismatch))"

definition polar_display :: "complex list \<Rightarrow> (real \<times> real) list" where
  "polar_display V = map (\<lambda>v. (cmod v, degrees (Arg v))) V"

definition nr_bus_voltages :: "nat \<Rightarrow> complex list \<Rightarrow> voltage_display" where
  "nr_bus_voltages n_buses V =
     (if n_buses \<le> 20 then PerBus (polar_display V)
      else Condensed (np_min (map cmod V)) (np_max (map cmod V)) (np_mean (map cmod V)))"

text \<open>The convergence test of \<^verbatim>\<open>NRLoadFlow.solve\<close>.\<close>

definition nr_converged_test :: "real \<Rightarrow> real list \<Rightarrow> bool" where
  "nr_converged_test tol mismatch \<longleftrightarrow>
     np_max (map abs mismatch) < tol \<and> rms mismatch < tol / 10"

text \<open>
  The part of the loop body after the convergence test: Jacobian, linear solve and the
  voltage update.  An exception of the library breaks out of the loop.
\<close>

definition nr_newton_step ::
  "linalg \<Rightarrow> matrix \<Rightarrow> int list \<Rightarrow> real list \<Rightarrow> nat \<Rightarrow> nr_locals \<Rightarrow> nr_locals loop_step" where
  "nr_newton_step la Y types mismatch it st =
     (let V = nl_V st; J = build_jacobian_optimized Y V types
      in case linalg_cond la J of
           None \<Rightarrow> Break (st\<lparr>nl_out := nl_out st @ [SingularJacobianError (it + 1)]\<rparr>)
         | Some c \<Rightarrow>
             (let st1 = (if c > 10 ^ 12
                         then st\<lparr>nl_out := nl_out st @ [IllConditionedWarning (it + 1)]\<rparr>
                         else st)
              in case linalg_solve la J mismatch of
                   None \<Rightarrow> Break (st1\<lparr>nl_out := nl_out st1 @ [SingularJacobianError (it + 1)]\<rparr>)
                 | Some dX \<Rightarrow>
                     (let pq = pq_buses types; pv = pv_buses types; non_slack = pv @ pq;
                          step_size = (if it < 3 then 8 / 10 else 1);
                          V1 = update_angles step_size dX non_slack V;
                          V2 = update_magnitudes step_size dX (length non_slack) pq V1
                      in Continue (st1\<lparr>nl_V := V2\<rparr>))))"

text \<open>The body of \<^verbatim>\<open>for it in range(max_iter)\<close>.\<close>

definition nr_body ::
  "linalg \<Rightarrow> nat \<Rightarrow> matrix \<Rightarrow> int list \<Rightarrow> real list \<Rightarrow> real list \<Rightarrow> real \<Rightarrow> nat \<Rightarrow>
   nr_locals \<Rightarrow> nr_locals loop_step" where
  "nr_body la n_buses Y types P_spec Q_spec tol it st =
     (let V = nl_V st; mismatch = calc_power_mismatch Y V P_spec Q_spec types
      in if length mismatch = 0 then Break (st\<lparr>nl_converged := True\<rparr>)
         else
           (let max_mis = np_max (map abs mismatch);
                rms_mis = rms mismatch;
                st1 = st\<lparr>nl_iteration_data := nl_iteration_data st @
                           [NRRecord (it + 1) (nr_bus_voltages n_buses V) max_mis rms_mis],
                         nl_max_mis := Some max_mis\<rparr>
            in if nr_converged_test tol mismatch then Break (st1\<lparr>nl_converged := True\<rparr>)
               else nr_newton_step la Y types mismatch it st1))"

text \<open>The loop itself: \<open>n\<close> iterations remain, \<open>it\<close> is the loop variable.\<close>

fun nr_loop ::
  "linalg \<Rightarrow> nat \<Rightarrow> matrix \<Rightarrow> int list \<Rightarrow> real list \<Rightarrow> real list \<Rightarrow> real \<Rightarrow> nat \<Rightarrow> nat \<Rightarrow>
   nr_locals \<Rightarrow> nr_locals" where
  "nr_loop la n_buses Y types P_spec Q_spec tol 0 it st = st"
| "nr_loop la n_buses Y types P_spec Q_spec tol (Suc n) it st =
     (case nr_body la n_buses Y types P_spec Q_spec tol it st of
        Break st' \<Rightarrow> st'
      | Continue st' \<Rightarrow> nr_loop la n_buses Y types P_spec Q_spec tol n (Suc it) st')"

text \<open>
  \<^verbatim>\<open>NRLoadFlow.solve\<close>.  The result is the returned tuple, the messages emitted and the
  object with its fields assigned.  The second message after a failed run formats
  \<^verbatim>\<open>max_mis\<close>, which is unbound when the loop body never ran.
\<close>

definition nr_solve_loop ::
  "linalg \<Rightarrow> NRLoadFlow \<Rightarrow> matrix \<Rightarrow> message list \<Rightarrow> real \<Rightarrow> int \<Rightarrow> nr_locals" where
  "nr_solve_loop la self1 Y w tol max_iter =
     (let (types, V, P_spec, Q_spec) = extract_bus_params self1;
          st0 = \<lparr>nl_V = V, nl_iteration_data = [], nl_converged = False,
                 nl_max_mis = None, nl_out = w\<rparr>
      in nr_loop la (nr_n_buses self1) Y types P_spec Q_spec tol (nat max_iter) 0 st0)"

definition NR_solve ::
  "linalg \<Rightarrow> NRLoadFlow \<Rightarrow> real \<Rightarrow> int \<Rightarrow>
   py_error + ret_item list \<times> message list \<times> NRLoadFlow" where
  "NR_solve la self tol max_iter =
     (case NR_build_ybus self of
        Inl e \<Rightarrow> Inl e
      | Inr (Y, w, self1) \<Rightarrow>
          (let st = nr_solve_loop la self1 Y w tol max_iter;
               self2 = self1\<lparr>nr_V_final := Some (nl_V st),
                             nr_iter_data := Some (nl_iteration_data st)\<rparr>;
               ret = [Voltages (nl_V st), IterationData (nl_iteration_data st)]
           in if \<not> nl_converged st
              then (case nl_max_mis st of
                      None \<Rightarrow> Inl UnboundLocalError
                    | Some m \<Rightarrow>
                        Inr (ret, nl_out st @ [NRNotConvergedWarning max_iter, NRFinalMismatch m],
                             self2))
              else Inr (ret, nl_out st, self2)))"

section \<open>Gauss-Seidel: \<^verbatim>\<open>GaussSeidel\<close>\<close>

record GaussSeidel =
  gs_bus_data :: "bus_row list"
  gs_line_data :: "line_row list"
  gs_Sbase :: real
  gs_Ybus :: "matrix option"
  gs_V_final :: "complex list option"
  gs_iter_data :: "iter_record list"

definition GaussSeidel_init :: "bus_row list \<Rightarrow> line_row list \<Rightarrow> real \<Rightarrow> GaussSeidel" where
  "GaussSeidel_init bus_data line_data Sbase =
     \<lparr>gs_bus_data = bus_data, gs_line_data = line_data, gs_Sbase = Sbase,
      gs_Ybus = None, gs_V_final = None, gs_iter_data = []\<rparr>"

text \<open>\<^verbatim>\<open>GaussSeidel.build_ybus\<close>: no test of the impedance before \<^verbatim>\<open>1 / z\<close>.\<close>

definition GS_build_ybus :: "GaussSeidel \<Rightarrow> py_error + matrix \<times> GaussSeidel" where
  "GS_build_ybus self =
     (let nb = length (gs_bus_data self)
      in case gs_ybus_loop nb (gs_line_data self) (zeros nb) of
           Inl e \<Rightarrow> Inl e
         | Inr Y \<Rightarrow> Inr (Y, self\<lparr>gs_Ybus := Some Y\<rparr>))"

text \<open>The body of the loop "Initialize voltages", for one bus.\<close>

definition gs_initial_voltage :: "bus_row \<Rightarrow> complex" where
  "gs_initial_voltage b =
     (if b_type b = 1 then of_real (b_vm b) * cis (radians (b_va b))
      else Complex (95 / 100) (- (5 / 100)))"

definition gs_initial_voltages :: "GaussSeidel \<Rightarrow> complex list" where
  "gs_initial_voltages self = map gs_initial_voltage (gs_bus_data self)"

text \<open>\<^verbatim>\<open>np.dot(self.Ybus[i, :], V)\<close>\<close>

definition row_dot :: "matrix \<Rightarrow> complex list \<Rightarrow> nat \<Rightarrow> complex" where
  "row_dot Y V i = (\<Sum>k\<leftarrow>[0..<length V]. Y ! i ! k * V ! k)"

text \<open>The accumulation of \<^verbatim>\<open>sumYV\<close> over \<open>k \<noteq> i\<close>.\<close>

definition sumYV :: "matrix \<Rightarrow> complex list \<Rightarrow> nat \<Rightarrow> complex" where
  "sumYV Y V i = (\<Sum>k\<leftarrow>[0..<length V]. if k \<noteq> i then Y ! i ! k * V ! k else 0)"

text \<open>
  \<^verbatim>\<open>np.clip(Qi, Qmin[i], Qmax[i])\<close> with the limits divided by \<^verbatim>\<open>Sbase\<close>; without the
  limit columns the limits are infinite and the value passes unchanged.
\<close>

definition clip_Q :: "real \<Rightarrow> (real \<times> real) option \<Rightarrow> real \<Rightarrow> real" where
  "clip_Q Sbase qlim q =
     (case qlim of None \<Rightarrow> q | Some (lo, hi) \<Rightarrow> clip q (lo / Sbase) (hi / Sbase))"

text \<open>The branch \<^verbatim>\<open>if types[i] == 3\<close> (PQ bus) of the sweep.\<close>

definition gs_pq_update ::
  "matrix \<Rightarrow> real \<Rightarrow> real \<Rightarrow> real \<Rightarrow> nat \<Rightarrow> complex \<Rightarrow> complex list \<Rightarrow> complex list" where
  "gs_pq_update Y P Q alpha i sYV V =
     (let S = Complex P Q;
          V1 = (if cmod (V ! i) < 1 / 10 ^ 12 then V[i := Complex (95 / 100) (- (5 / 100))] else V);
          V_new = (1 / Y ! i ! i) * (cnj S / cnj (V1 ! i) - sYV)
      in V1[i := of_real alpha * V_new + of_real (1 - alpha) * V1 ! i])"

text \<open>
  The pieces of the branch \<^verbatim>\<open>elif types[i] == 2\<close> (PV bus): the reactive power
  estimated from the present voltages and clipped, the voltage solved for, and its
  renormalisation under the guard \<^verbatim>\<open>abs(V_new) > 1e-12\<close>.
\<close>

definition gs_pv_Qi :: "matrix \<Rightarrow> real \<Rightarrow> (real \<times> real) option \<Rightarrow> nat \<Rightarrow> complex list \<Rightarrow> real" where
  "gs_pv_Qi Y Sbase qlim i V =
     (let I_inj = row_dot Y V i; S_calc = V ! i * cnj I_inj
      in clip_Q Sbase qlim (Im S_calc))"

definition gs_pv_solved :: "matrix \<Rightarrow> real \<Rightarrow> real \<Rightarrow> nat \<Rightarrow> complex \<Rightarrow> complex list \<Rightarrow> complex" where
  "gs_pv_solved Y P Qi i sYV V1 =
     (let S = Complex P Qi
      in (1 / Y ! i ! i) * (cnj S / cnj (V1 ! i) - sYV))"

definition gs_pv_renorm :: "real \<Rightarrow> complex \<Rightarrow> complex" where
  "gs_pv_renorm vset V_new =
     (if cmod V_new > 1 / 10 ^ 12 then of_real vset * (V_new / of_real (cmod V_new))
      else V_new)"

definition gs_pv_update ::
  "matrix \<Rightarrow> real \<Rightarrow> real \<Rightarrow> (real \<times> real) option \<Rightarrow> real \<Rightarrow> real \<Rightarrow> nat \<Rightarrow> complex \<Rightarrow>
   complex list \<Rightarrow> complex list" where
  "gs_pv_update Y Sbase P qlim vset alpha i sYV V =
     (let Qi = gs_pv_Qi Y Sbase qlim i V;
          V1 = (if cmod (V ! i) < 1 / 10 ^ 12 then V[i := Complex vset 0] else V);
          V_new = gs_pv_renorm vset (gs_pv_solved Y P Qi i sYV V1)
      in V1[i := of_real alpha * V_new + of_real (1 - alpha) * V1 ! i])"

text \<open>The variables a sweep carries from bus to bus.\<close>

record gs_sweep =
  sw_V :: "complex list"
  sw_max_mis :: real
  sw_max_power_mis :: real

text \<open>The body of \<^verbatim>\<open>for i in range(nb)\<close>.\<close>

definition gs_bus_step ::
  "GaussSeidel \<Rightarrow> matrix \<Rightarrow> real \<Rightarrow> complex list \<Rightarrow> nat \<Rightarrow> gs_sweep \<Rightarrow> gs_sweep" where
  "gs_bus_step self Y alpha V_prev i sw =
     (let b = gs_bus_data self ! i; t = b_type b; Sbase = gs_Sbase self;
          P_spec = b_PG b / Sbase - b_PL b / Sbase;
          Q_spec = b_QG b / Sbase - b_QL b / Sbase
      in if t = 1 then sw
         else
           (let V = sw_V sw;
                sYV = sumYV Y V i;
                V' = (if t = 3 then gs_pq_update Y P_spec Q_spec alpha i sYV V
                      else if t = 2
                      then gs_pv_update Y Sbase P_spec (b_qlim b) (b_vm b) alpha i sYV V
                      else V);
                mis = cmod (V' ! i - V_prev ! i);
                max_mis = max (sw_max_mis sw) mis;
                I_inj = row_dot Y V' i;
                S_calc = V' ! i * cnj I_inj;
                P_mis = \<bar>P_spec - Re S_calc\<bar>;
                Q_mis = \<bar>Q_spec - Im S_calc\<bar>;
                max_power_mis =
                  (if t = 3 then max (max (sw_max_power_mis sw) P_mis) Q_mis
                   else if t = 2 then max (sw_max_power_mis sw) P_mis
                   else sw_max_power_mis sw)
            in \<lparr>sw_V = V', sw_max_mis = max_mis, sw_max_power_mis = max_power_mis\<rparr>))"

text \<open>The local variables of \<^verbatim>\<open>GaussSeidel.solve\<close> and the field \<^verbatim>\<open>self.iter_data\<close>.\<close>

record gs_locals =
  gl_V :: "complex list"
  gl_iter_data :: "iter_record list"
  gl_converged :: bool

text \<open>The body of \<^verbatim>\<open>for it in range(max_iter)\<close>: one sweep, one record, the test.\<close>

definition gs_body :: "GaussSeidel \<Rightarrow> matrix \<Rightarrow> real \<Rightarrow> real \<Rightarrow> nat \<Rightarrow> gs_locals \<Rightarrow> gs_locals loop_step" where
  "gs_body self Y tol alpha it st =
     (let V_prev = gl_V st; nb = length (gl_V st);
          sw = fold (gs_bus_step self Y alpha V_prev) [0..<nb]
                 \<lparr>sw_V = gl_V st, sw_max_mis = 0, sw_max_power_mis = 0\<rparr>;
          st1 = st\<lparr>gl_V := sw_V sw,
                   gl_iter_data := gl_iter_data st @
                     [GSRecord (it + 1) (sw_max_mis sw) (sw_max_power_mis sw)
                        (polar_display (sw_V sw))]\<rparr>
      in if sw_max_mis sw < tol then Break (st1\<lparr>gl_converged := True\<rparr>) else Continue st1)"

fun gs_loop :: "GaussSeidel \<Rightarrow> matrix \<Rightarrow> real \<Rightarrow> real \<Rightarrow> nat \<Rightarrow> nat \<Rightarrow> gs_locals \<Rightarrow> gs_locals" where
  "gs_loop self Y tol alpha 0 it st = st"
| "gs_loop self Y tol alpha (Suc n) it st =
     (case gs_body self Y tol alpha it st of
        Break st' \<Rightarrow> st'
      | Continue st' \<Rightarrow> gs_loop self Y tol alpha n (Suc it) st')"

text \<open>
  \<^verbatim>\<open>GaussSeidel.solve\<close>.  Every exception inside is raised again as a RuntimeError.  The
  trace is the field \<^verbatim>\<open>self.iter_data\<close>, which the constructor alone sets to the empty
  list; the returned list and the field are the same object.
\<close>

definition gs_solve_loop :: "GaussSeidel \<Rightarrow> matrix \<Rightarrow> real \<Rightarrow> int \<Rightarrow> real \<Rightarrow> gs_locals" where
  "gs_solve_loop self1 Y tol max_iter alpha =
     (let V = gs_initial_voltages self1;
          st0 = \<lparr>gl_V = V, gl_iter_data = gs_iter_data self1, gl_converged = False\<rparr>
      in gs_loop self1 Y tol alpha (nat max_iter) 0 st0)"

definition GS_solve ::
  "GaussSeidel \<Rightarrow> real \<Rightarrow> int \<Rightarrow> real \<Rightarrow>
   py_error + ret_item list \<times> message list \<times> GaussSeidel" where
  "GS_solve self tol max_iter alpha =
     (case GS_build_ybus self of
        Inl e \<Rightarrow> Inl (RuntimeError e)
      | Inr (Y, self1) \<Rightarrow>
          (let st = gs_solve_loop self1 Y tol max_iter alpha;
               out = (if \<not> gl_converged st then [GSNotConvergedWarning] else []);
               self2 = self1\<lparr>gs_V_final := Some (gl_V st), gs_iter_data := gl_iter_data st\<rparr>
           in Inr ([Voltages (gl_V st), IterationData (gl_iter_data st)], out, self2)))"

section \<open>Fast-Decoupled: \<^verbatim>\<open>FastDecoupled\<close>\<close>

text \<open>
  In \<^verbatim>\<open>algorithms/fast_decoupled.py\<close> every line after the constructor is a comment:
  the class has the constructor and nothing else.
\<close>

record FastDecoupled =
  fd_bus_data :: "bus_row list"
  fd_line_data :: "line_row list"
  fd_Sbase :: real
  fd_Ybus :: "matrix option"
  fd_V_final :: "complex list option"
  fd_iter_data :: "iter_record list"
  fd_converged :: bool

definition FastDecoupled_init :: "bus_row list \<Rightarrow> line_row list \<Rightarrow> real \<Rightarrow> FastDecoupled" where
  "FastDecoupled_init bus_data line_data Sbase =
     \<lparr>fd_bus_data = bus_data, fd_line_data = line_data, fd_Sbase = Sbase,
      fd_Ybus = None, fd_V_final = None, fd_iter_data = [], fd_converged = False\<rparr>"

text \<open>
  Attribute access on an instance: the instance attributes the constructor assigns, then
  the attributes of the class body; any other name raises AttributeError.
\<close>

datatype fd_attribute =
    BusData "bus_row list"
  | LineData "line_row list"
  | SbaseValue real
  | YbusValue "matrix option"
  | VFinal "complex list option"
  | IterData "iter_record list"
  | ConvergedFlag bool
  | BoundMethod string

definition FastDecoupled_getattr :: "FastDecoupled \<Rightarrow> string \<Rightarrow> py_error + fd_attribute" where
  "FastDecoupled_getattr self name =
     (if name = ''bus_data'' then Inr (BusData (fd_bus_data self))
      else if name = ''line_data'' then Inr (LineData (fd_line_data self))
      else if name = ''Sbase'' then Inr (SbaseValue (fd_Sbase self))
      else if name = ''Ybus'' then Inr (YbusValue (fd_Ybus self))
      else if name = ''V_final'' then Inr (VFinal (fd_V_final self))
      else if name = ''iter_data'' then Inr (IterData (fd_iter_data self))
      else if name = ''converged'' then Inr (ConvergedFlag (fd_converged self))
      else if name = ''__init__'' then Inr (BoundMethod ''__init__'')
      else Inl AttributeError)"


section \<open>Auxiliary notions for the statements\<close>

text \<open>The state a loop body hands on, whether it breaks or continues.\<close>

fun step_state :: "'a loop_step \<Rightarrow> 'a" where
  "step_state (Continue s) = s"
| "step_state (Break s) = s"

text \<open>A square array of side \<open>n\<close>, and its symmetry.\<close>

definition wf_matrix :: "nat \<Rightarrow> matrix \<Rightarrow> bool" where
  "wf_matrix n Y \<longleftrightarrow> length Y = n \<and> (\<forall>r\<in>set Y. length r = n)"

definition symmetric :: "nat \<Rightarrow> matrix \<Rightarrow> bool" where
  "symmetric n Y \<longleftrightarrow> (\<forall>p<n. \<forall>q<n. Y ! p ! q = Y ! q ! p)"

text \<open>
  A line record of a network of \<open>nb\<close> buses: both ends name a bus (identifiers count
  from 1) and the series impedance \<open>r + jx\<close> is not zero.
\<close>

definition line_ok :: "nat \<Rightarrow> line_row \<Rightarrow> bool" where
  "line_ok nb l \<longleftrightarrow>
     1 \<le> l_from l \<and> l_from l \<le> int nb \<and> 1 \<le> l_to l \<and> l_to l \<le> int nb \<and>
     (l_r l \<noteq> 0 \<or> l_x l \<noteq> 0)"

fun lines_ok :: "nat \<Rightarrow> line_row list \<Rightarrow> bool" where
  "lines_ok nb [] \<longleftrightarrow> True"
| "lines_ok nb (l # ls) \<longleftrightarrow> line_ok nb l \<and> lines_ok nb ls"

subsection \<open>Example networks\<close>

text \<open>The three-bus system of the \<^verbatim>\<open>__main__\<close> block of \<^verbatim>\<open>newton_raphson.py\<close>.\<close>

definition bus_data_3bus :: "bus_row list" where
  "bus_data_3bus =
     [\<lparr>b_no = 1, b_type = 1, b_vm = 105 / 100, b_va = 0, b_PG = 0, b_QG = 0,
       b_PL = 0, b_QL = 0, b_qlim = None\<rparr>,
      \<lparr>b_no = 2, b_type = 2, b_vm = 103 / 100, b_va = 0, b_PG = 1 / 2, b_QG = 0,
       b_PL = 0, b_QL = 0, b_qlim = None\<rparr>,
      \<lparr>b_no = 3, b_type = 3, b_vm = 1, b_va = 0, b_PG = 0, b_QG = 0,
       b_PL = 8 / 10, b_QL = 4 / 10, b_qlim = None\<rparr>]"

definition line_data_3bus :: "line_row list" where
  "line_data_3bus =
     [\<lparr>l_from = 1, l_to = 2, l_r = 2 / 100, l_x = 6 / 100, l_b = 6 / 100\<rparr>,
      \<lparr>l_from = 1, l_to = 3, l_r = 8 / 100, l_x = 24 / 100, l_b = 5 / 100\<rparr>,
      \<lparr>l_from = 2, l_to = 3, l_r = 6 / 100, l_x = 18 / 100, l_b = 4 / 100\<rparr>]"

text \<open>A network of the Slack bus alone.\<close>

definition bus_data_slack_only :: "bus_row list" where
  "bus_data_slack_only =
     [\<lparr>b_no = 1, b_type = 1, b_vm = 105 / 100, b_va = 0, b_PG = 0, b_QG = 0,
       b_PL = 0, b_QL = 0, b_qlim = None\<rparr>]"

text \<open>
  Two buses joined by one line of impedance \<open>j\<close> (\<open>r = 0\<close>, \<open>x = 1\<close>, no shunt): a Slack
  bus at \<open>1\<angle>0\<close> and either an unloaded PQ bus, or a PV bus with set-point 1.03, load
  \<open>P = 0.05\<close> and both reactive limits at \<open>-0.95\<close> (a table of ten columns).
\<close>

definition slack_unit :: bus_row where
  "slack_unit = \<lparr>b_no = 1, b_type = 1, b_vm = 1, b_va = 0, b_PG = 0, b_QG = 0,
                  b_PL = 0, b_QL = 0, b_qlim = None\<rparr>"

definition bus_data_pq2 :: "bus_row list" where
  "bus_data_pq2 =
     [slack_unit,
      \<lparr>b_no = 2, b_type = 3, b_vm = 1, b_va = 0, b_PG = 0, b_QG = 0,
       b_PL = 0, b_QL = 0, b_qlim = None\<rparr>]"

definition bus_data_pv2 :: "bus_row list" where
  "bus_data_pv2 =
     [slack_unit\<lparr>b_qlim := Some (0, 0)\<rparr>,
      \<lparr>b_no = 2, b_type = 2, b_vm = 103 / 100, b_va = 0, b_PG = 0, b_QG = 0,
       b_PL = 5 / 100, b_QL = 0, b_qlim = Some (- (95 / 100), - (95 / 100))\<rparr>]"

definition line_data_j :: "line_row list" where
  "line_data_j = [\<lparr>l_from = 1, l_to = 2, l_r = 0, l_x = 1, l_b = 0\<rparr>]"

text \<open>The same two buses joined by a line of zero impedance.\<close>

definition line_data_zero :: "line_row list" where
  "line_data_zero = [\<lparr>l_from = 1, l_to = 2, l_r = 0, l_x = 0, l_b = 0\<rparr>]"

text \<open>A library whose linear solve always fails, and one that returns zero corrections.\<close>

definition linalg_singular :: linalg where
  "linalg_singular = \<lparr>linalg_cond = (\<lambda>J. Some 1), linalg_solve = (\<lambda>J m. None)\<rparr>"

definition linalg_zero :: linalg where
  "linalg_zero =
     \<lparr>linalg_cond = (\<lambda>J. Some 1), linalg_solve = (\<lambda>J m. Some (replicate (length m) 0))\<rparr>"


text \<open>
  The starting voltages of the three-bus system and the local variables of the two
  \<^verbatim>\<open>solve\<close> methods on entry to their loops there.
\<close>

definition V_3bus :: "complex list" where
  "V_3bus = [Complex (105 / 100) 0, Complex (103 / 100) 0, Complex (95 / 100) (- (5 / 100))]"

definition nr_locals_3bus :: nr_locals where
  "nr_locals_3bus =
     \<lparr>nl_V = V_3bus, nl_iteration_data = [], nl_converged = False, nl_max_mis = None,
      nl_out = []\<rparr>"

definition gs_locals_3bus :: gs_locals where
  "gs_locals_3bus = \<lparr>gl_V = V_3bus, gl_iter_data = [], gl_converged = False\<rparr>"

text \<open>The local variables of Newton-Raphson's \<^verbatim>\<open>solve\<close> on entry to its loop on the
  network of the Slack bus alone.\<close>

definition nr_locals_slack_only :: nr_locals where
  "nr_locals_slack_only =
     \<lparr>nl_V = [105 / 100], nl_iteration_data = [], nl_converged = False, nl_max_mis = None,
      nl_out = []\<rparr>"

definition P_spec_3bus :: "real list" where
  "P_spec_3bus = [0, 1 / 2, - (8 / 10)]"

definition Q_spec_3bus :: "real list" where
  "Q_spec_3bus = [0, 0, - (4 / 10)]"

text \<open>
  The admittance matrix of the two buses joined by the line of impedance \<open>j\<close>, their
  starting voltages in Gauss-Seidel, the two instances, and the three-bus system
  without any line.
\<close>

definition Y_j :: matrix where
  "Y_j = [[Complex 0 (- 1), Complex 0 1], [Complex 0 1, Complex 0 (- 1)]]"

definition V_start2 :: "complex list" where
  "V_start2 = [1, Complex (95 / 100) (- (5 / 100))]"

definition gs_pq2 :: GaussSeidel where
  "gs_pq2 = GaussSeidel_init bus_data_pq2 line_data_j 1"

definition gs_pv2 :: GaussSeidel where
  "gs_pv2 = GaussSeidel_init bus_data_pv2 line_data_j 1"

definition nr_3bus_unconnected :: NRLoadFlow where
  "nr_3bus_unconnected = NRLoadFlow_init bus_data_3bus [] True"

text \<open>The PV bus of the two-bus network without limit columns.\<close>

definition bus_data_pv2_free :: "bus_row list" where
  "bus_data_pv2_free =
     [slack_unit,
      \<lparr>b_no = 2, b_type = 2, b_vm = 103 / 100, b_va = 0, b_PG = 0, b_QG = 0,
       b_PL = 5 / 100, b_QL = 0, b_qlim = None\<rparr>]"

definition gs_pv2_free :: GaussSeidel where
  "gs_pv2_free = GaussSeidel_init bus_data_pv2_free line_data_j 1"

section \<open>The admittance matrix is symmetric\<close>

lemma wf_zeros: "wf_matrix nb (zeros nb)"
  by (simp add: wf_matrix_def zeros_def)

lemma symmetric_zeros: "symmetric nb (zeros nb)"
  by (simp add: symmetric_def zeros_def)

lemma np_index_bound: "np_index n k = Inr a \<Longrightarrow> a < n"
  by (auto simp: np_index_def split: if_splits)

lemma wf_row: "wf_matrix n Y \<Longrightarrow> p < n \<Longrightarrow> length (Y ! p) = n"
  by (simp add: wf_matrix_def)

lemma entry_update_wf:
  "wf_matrix n Y \<Longrightarrow> a < n \<Longrightarrow> wf_matrix n (Y[a := (Y ! a)[b := w]])"
  by (auto simp: wf_matrix_def dest!: set_update_subset_insert [THEN subsetD])

lemma entry_update_nth:
  "wf_matrix n Y \<Longrightarrow> a < n \<Longrightarrow> b < n \<Longrightarrow> p < n \<Longrightarrow> q < n \<Longrightarrow>
   Y[a := (Y ! a)[b := w]] ! p ! q = (if p = a \<and> q = b then w else Y ! p ! q)"
  by (auto simp: wf_matrix_def nth_list_update)

lemma iadd_cases:
  assumes "iadd nb Y i j v = Inr Y'"
  obtains a b where "np_index nb i = Inr a" "np_index nb j = Inr b"
    "Y' = Y[a := (Y ! a)[b := Y ! a ! b + v]]"
  using assms by (auto simp: iadd_def split: sum.splits)

lemma iadd_wf:
  "wf_matrix nb Y \<Longrightarrow> iadd nb Y i j v = Inr Y' \<Longrightarrow> wf_matrix nb Y'"
  by (erule iadd_cases) (auto intro: entry_update_wf dest: np_index_bound)

lemma iadd_nth:
  assumes wf: "wf_matrix nb Y" and ia: "iadd nb Y i j v = Inr Y'"
    and a: "np_index nb i = Inr a" and b: "np_index nb j = Inr b"
    and p: "p < nb" and q: "q < nb"
  shows "Y' ! p ! q = (if p = a \<and> q = b then Y ! p ! q + v else Y ! p ! q)"
proof -
  from ia a b have Y': "Y' = Y[a := (Y ! a)[b := Y ! a ! b + v]]"
    by (simp add: iadd_def)
  from a b have "a < nb" "b < nb" by (auto dest: np_index_bound)
  then show ?thesis
    unfolding Y' using entry_update_nth [OF wf _ _ p q] by simp
qed

lemma stamp_line_cases:
  assumes "stamp_line nb Y l = Inr Y'"
  obtains Y1 Y2 Y3 a b where
    "Complex (l_r l) (l_x l) \<noteq> 0"
    "np_index nb (l_from l - 1) = Inr a" "np_index nb (l_to l - 1) = Inr b"
    "iadd nb Y (l_from l - 1) (l_from l - 1) (1 / Complex (l_r l) (l_x l) + \<i> * of_real (l_b l) / 2) = Inr Y1"
    "iadd nb Y1 (l_to l - 1) (l_to l - 1) (1 / Complex (l_r l) (l_x l) + \<i> * of_real (l_b l) / 2) = Inr Y2"
    "iadd nb Y2 (l_from l - 1) (l_to l - 1) (- (1 / Complex (l_r l) (l_x l))) = Inr Y3"
    "iadd nb Y3 (l_to l - 1) (l_from l - 1) (- (1 / Complex (l_r l) (l_x l))) = Inr Y'"
proof -
  from assms have z: "Complex (l_r l) (l_x l) \<noteq> 0"
    by (auto simp: stamp_line_def Let_def split: if_splits)
  with assms obtain Y1 Y2 Y3 where
    1: "iadd nb Y (l_from l - 1) (l_from l - 1) (1 / Complex (l_r l) (l_x l) + \<i> * of_real (l_b l) / 2) = Inr Y1"
    and 2: "iadd nb Y1 (l_to l - 1) (l_to l - 1) (1 / Complex (l_r l) (l_x l) + \<i> * of_real (l_b l) / 2) = Inr Y2"
    and 3: "iadd nb Y2 (l_from l - 1) (l_to l - 1) (- (1 / Complex (l_r l) (l_x l))) = Inr Y3"
    and 4: "iadd nb Y3 (l_to l - 1) (l_from l - 1) (- (1 / Complex (l_r l) (l_x l))) = Inr Y'"
    by (auto simp: stamp_line_def Let_def split: if_splits sum.splits)
  from 1 obtain a where a: "np_index nb (l_from l - 1) = Inr a" by (auto elim: iadd_cases)
  from 2 obtain b where b: "np_index nb (l_to l - 1) = Inr b" by (auto elim: iadd_cases)
  from z a b 1 2 3 4 show thesis by (rule that)
qed

lemma stamp_line_wf:
  "wf_matrix nb Y \<Longrightarrow> stamp_line nb Y l = Inr Y' \<Longrightarrow> wf_matrix nb Y'"
  by (erule stamp_line_cases) (blast intro: iadd_wf)

lemma four_updates:
  fixes Y0 :: complex and u v a b :: nat
  assumes "Y4 = (if u = b \<and> v = a then Y3 + y else Y3)"
    and "Y3 = (if u = a \<and> v = b then Y2 + y else Y2)"
    and "Y2 = (if u = b \<and> v = b then Y1 + c else Y1)"
    and "Y1 = (if u = a \<and> v = a then Y0 + c else Y0)"
  shows "Y4 = Y0 + (if u = a \<and> v = a then c else 0) + (if u = b \<and> v = b then c else 0)
          + (if u = a \<and> v = b then y else 0) + (if u = b \<and> v = a then y else 0)"
  unfolding assms
  by (cases "u = a"; cases "v = a"; cases "u = b"; cases "v = b"; simp)

lemma stamp_line_symmetric:
  assumes wf: "wf_matrix nb Y" and sym: "symmetric nb Y" and st: "stamp_line nb Y l = Inr Y'"
  shows "symmetric nb Y'"
proof -
  obtain Y1 Y2 Y3 a b c y where
    a: "np_index nb (l_from l - 1) = Inr a" and b: "np_index nb (l_to l - 1) = Inr b"
    and 1: "iadd nb Y (l_from l - 1) (l_from l - 1) c = Inr Y1"
    and 2: "iadd nb Y1 (l_to l - 1) (l_to l - 1) c = Inr Y2"
    and 3: "iadd nb Y2 (l_from l - 1) (l_to l - 1) y = Inr Y3"
    and 4: "iadd nb Y3 (l_to l - 1) (l_from l - 1) y = Inr Y'"
    by (rule stamp_line_cases [OF st]) blast
  have w1: "wf_matrix nb Y1" using wf 1 by (rule iadd_wf)
  have w2: "wf_matrix nb Y2" using w1 2 by (rule iadd_wf)
  have w3: "wf_matrix nb Y3" using w2 3 by (rule iadd_wf)
  show ?thesis
    unfolding symmetric_def
  proof (intro allI impI)
    fix p q assume p: "p < nb" and q: "q < nb"
    have e: "Y' ! u ! v =
        Y ! u ! v + (if u = a \<and> v = a then c else 0) + (if u = b \<and> v = b then c else 0)
          + (if u = a \<and> v = b then y else 0) + (if u = b \<and> v = a then y else 0)"
      if "u < nb" "v < nb" for u v
    proof -
      note e4 = iadd_nth [OF w3 4 b a that]
      note e3 = iadd_nth [OF w2 3 a b that]
      note e2 = iadd_nth [OF w1 2 b b that]
      note e1 = iadd_nth [OF wf 1 a a that]
      show ?thesis
        by (rule four_updates [OF e4 e3 e2 e1])
    qed
    from sym p q have "Y ! p ! q = Y ! q ! p" by (simp add: symmetric_def)
    then show "Y' ! p ! q = Y' ! q ! p"
      unfolding e [OF p q] e [OF q p]
      by (cases "p = a"; cases "q = a"; cases "p = b"; cases "q = b"; simp)
  qed
qed

lemma gs_ybus_loop_invariant:
  "wf_matrix nb Y \<Longrightarrow> symmetric nb Y \<Longrightarrow> gs_ybus_loop nb ls Y = Inr Y' \<Longrightarrow>
   wf_matrix nb Y' \<and> symmetric nb Y'"
proof (induction ls arbitrary: Y)
  case Nil
  then show ?case by simp
next
  case (Cons l ls)
  from Cons.prems(3) obtain Y1 where s: "stamp_line nb Y l = Inr Y1"
    and r: "gs_ybus_loop nb ls Y1 = Inr Y'"
    by (auto split: sum.splits)
  show ?case
    using Cons.IH [OF stamp_line_wf [OF Cons.prems(1) s]
        stamp_line_symmetric [OF Cons.prems(1,2) s] r] .
qed

lemma nr_ybus_loop_invariant:
  "wf_matrix nb Y \<Longrightarrow> symmetric nb Y \<Longrightarrow> nr_ybus_loop nb ls Y w = Inr (Y', w') \<Longrightarrow>
   wf_matrix nb Y' \<and> symmetric nb Y'"
proof (induction ls arbitrary: Y w)
  case Nil
  then show ?case by simp
next
  case (Cons l ls)
  show ?case
  proof (cases "\<bar>l_r l\<bar> < 1 / 10 ^ 12 \<and> \<bar>l_x l\<bar> < 1 / 10 ^ 12")
    case True
    with Cons.prems(3) have "nr_ybus_loop nb ls Y
        (w @ [ZeroImpedanceWarning (l_from l - 1 + 1) (l_to l - 1 + 1)]) = Inr (Y', w')"
      by simp
    then show ?thesis using Cons.IH Cons.prems(1,2) by blast
  next
    case False
    with Cons.prems(3) obtain Y1 where s: "stamp_line nb Y l = Inr Y1"
      and r: "nr_ybus_loop nb ls Y1 w = Inr (Y', w')"
      by (auto split: sum.splits)
    show ?thesis
      using Cons.IH [OF stamp_line_wf [OF Cons.prems(1) s]
          stamp_line_symmetric [OF Cons.prems(1,2) s] r] .
  qed
qed


lemma np_index_id: "1 \<le> k \<Longrightarrow> k \<le> int nb \<Longrightarrow> np_index nb (k - 1) = Inr (nat (k - 1))"
  by (auto simp: np_index_def)

lemma stamp_line_total:
  assumes "line_ok nb l"
  shows "\<exists>Y'. stamp_line nb Y l = Inr Y'"
proof -
  from assms have z: "Complex (l_r l) (l_x l) \<noteq> 0"
    by (auto simp: line_ok_def complex_eq_iff)
  from assms have a: "np_index nb (l_from l - 1) = Inr (nat (l_from l - 1))"
    and b: "np_index nb (l_to l - 1) = Inr (nat (l_to l - 1))"
    by (simp_all add: line_ok_def np_index_id)
  show ?thesis
    by (simp add: stamp_line_def Let_def iadd_def z a b)
qed

lemma gs_ybus_loop_total:
  "lines_ok nb ls \<Longrightarrow> \<exists>Y'. gs_ybus_loop nb ls Y = Inr Y'"
proof (induction ls arbitrary: Y)
  case Nil
  then show ?case by simp
next
  case (Cons l ls)
  then obtain Y1 where "stamp_line nb Y l = Inr Y1"
    using stamp_line_total [of nb l Y] by auto
  with Cons show ?case by simp
qed

lemma nr_ybus_loop_total:
  "lines_ok nb ls \<Longrightarrow> \<exists>Y' w'. nr_ybus_loop nb ls Y w = Inr (Y', w')"
proof (induction ls arbitrary: Y w)
  case Nil
  then show ?case by simp
next
  case (Cons l ls)
  then obtain Y1 where "stamp_line nb Y l = Inr Y1"
    using stamp_line_total [of nb l Y] by auto
  with Cons show ?case by simp
qed

lemma GS_build_ybus_total:
  "lines_ok (length (gs_bus_data self)) (gs_line_data self) \<Longrightarrow>
   \<exists>Y. GS_build_ybus self = Inr (Y, self\<lparr>gs_Ybus := Some Y\<rparr>)"
  using gs_ybus_loop_total [of "length (gs_bus_data self)" "gs_line_data self"
      "zeros (length (gs_bus_data self))"]
  by (auto simp: GS_build_ybus_def Let_def)

lemma NR_build_ybus_total:
  "lines_ok (nr_n_buses self) (nr_line_data self) \<Longrightarrow>
   \<exists>Y w. NR_build_ybus self = Inr (Y, w, self\<lparr>nr_Ybus := Some Y\<rparr>)"
  using nr_ybus_loop_total [of "nr_n_buses self" "nr_line_data self" "zeros (nr_n_buses self)" "[]"]
  by (auto simp: NR_build_ybus_def Let_def)

lemma GS_build_ybus_symmetric:
  "GS_build_ybus self = Inr (Y, self') \<Longrightarrow> symmetric (length (gs_bus_data self)) Y"
  using gs_ybus_loop_invariant [OF wf_zeros symmetric_zeros]
  by (auto simp: GS_build_ybus_def Let_def split: sum.splits)

lemma NR_build_ybus_symmetric:
  "NR_build_ybus self = Inr (Y, w, self') \<Longrightarrow> symmetric (nr_n_buses self) Y"
  using nr_ybus_loop_invariant [OF wf_zeros symmetric_zeros]
  by (auto simp: NR_build_ybus_def Let_def split: sum.splits)

text \<open>
  C7.  Whatever admittance matrix one of the two builders returns is symmetric: the
  entries \<open>(i, j)\<close> and \<open>(j, i)\<close> are equal for all bus indices \<open>i\<close>, \<open>j\<close>.  And the
  builders do return one when the line records name buses of the network and have no
  zero impedance.
\<close>

theorem ybus_symmetric:
  assumes i: "i < length bus_data" and j: "j < length bus_data"
  shows "(NR_build_ybus (NRLoadFlow_init bus_data line_data use_sparse) = Inr (Y, w, nr')
            \<longrightarrow> Y ! i ! j = Y ! j ! i) \<and>
         (GS_build_ybus (GaussSeidel_init bus_data line_data Sbase) = Inr (Y', gs')
            \<longrightarrow> Y' ! i ! j = Y' ! j ! i) \<and>
         (lines_ok (length bus_data) line_data \<longrightarrow>
            (\<exists>Y w nr'. NR_build_ybus (NRLoadFlow_init bus_data line_data use_sparse)
               = Inr (Y, w, nr')) \<and>
            (\<exists>Y gs'. GS_build_ybus (GaussSeidel_init bus_data line_data Sbase) = Inr (Y, gs')))"
proof (intro conjI impI)
  assume b: "NR_build_ybus (NRLoadFlow_init bus_data line_data use_sparse) = Inr (Y, w, nr')"
  from NR_build_ybus_symmetric [OF b] i j show "Y ! i ! j = Y ! j ! i"
    by (simp add: symmetric_def NRLoadFlow_init_def)
next
  assume b: "GS_build_ybus (GaussSeidel_init bus_data line_data Sbase) = Inr (Y', gs')"
  from GS_build_ybus_symmetric [OF b] i j show "Y' ! i ! j = Y' ! j ! i"
    by (simp add: symmetric_def GaussSeidel_init_def)
next
  let ?nr = "NRLoadFlow_init bus_data line_data use_sparse"
  assume "lines_ok (length bus_data) line_data"
  then have "lines_ok (nr_n_buses ?nr) (nr_line_data ?nr)"
    by (simp add: NRLoadFlow_init_def)
  from NR_build_ybus_total [OF this]
  show "\<exists>Y w nr'. NR_build_ybus ?nr = Inr (Y, w, nr')" by blast
next
  let ?gs = "GaussSeidel_init bus_data line_data Sbase"
  assume "lines_ok (length bus_data) line_data"
  then have "lines_ok (length (gs_bus_data ?gs)) (gs_line_data ?gs)"
    by (simp add: GaussSeidel_init_def)
  from GS_build_ybus_total [OF this]
  show "\<exists>Y gs'. GS_build_ybus ?gs = Inr (Y, gs')" by blast
qed

theorem ybus_symmetric_witness:
  "\<exists>Y w nr' Y' gs'.
     NR_build_ybus (NRLoadFlow_init bus_data_3bus line_data_3bus True) = Inr (Y, w, nr') \<and>
     Y ! 0 ! 2 = Y ! 2 ! 0 \<and>
     GS_build_ybus (GaussSeidel_init bus_data_3bus line_data_3bus 1) = Inr (Y', gs') \<and>
     Y' ! 0 ! 2 = Y' ! 2 ! 0"
proof -
  have ok: "lines_ok (length bus_data_3bus) line_data_3bus"
    by (simp add: bus_data_3bus_def line_data_3bus_def line_ok_def)
  have i: "0 < length bus_data_3bus" and j: "2 < length bus_data_3bus"
    by (simp_all add: bus_data_3bus_def)
  from ybus_symmetric [OF i j, of line_data_3bus True] ok
  obtain Y w nr' Y' gs' where
    n: "NR_build_ybus (NRLoadFlow_init bus_data_3bus line_data_3bus True) = Inr (Y, w, nr')"
    and g: "GS_build_ybus (GaussSeidel_init bus_data_3bus line_data_3bus 1) = Inr (Y', gs')"
    by blast
  from ybus_symmetric [OF i j, of line_data_3bus True Y w nr' 1 Y' gs'] n g
  show ?thesis by blast
qed

text \<open>
  The Newton-Raphson builder passes over a line with \<open>|r| < 1e-12\<close> and \<open>|x| < 1e-12\<close>:
  it adds one warning and the matrix is the one the other lines give.
\<close>

lemma nr_ybus_loop_skips:
  "\<bar>l_r l\<bar> < 1 / 10 ^ 12 \<Longrightarrow> \<bar>l_x l\<bar> < 1 / 10 ^ 12 \<Longrightarrow>
   nr_ybus_loop nb (l # ls) Y w =
   nr_ybus_loop nb ls Y (w @ [ZeroImpedanceWarning (l_from l) (l_to l)])"
  by simp

text \<open>
  C3.  At the network of two buses joined by a line with \<open>r = x = 0\<close> the
  Gauss-Seidel builder raises ZeroDivisionError, which \<^verbatim>\<open>solve\<close> raises again as a
  RuntimeError, where the Newton-Raphson builder gives its warning and returns the
  matrix of zeros.
\<close>

theorem zero_impedance_line_gauss_seidel_raises:
  "GS_build_ybus (GaussSeidel_init bus_data_pq2 line_data_zero 1) = Inl ZeroDivisionError \<and>
   GS_solve (GaussSeidel_init bus_data_pq2 line_data_zero 1) (1 / 10 ^ 6) 100 1
     = Inl (RuntimeError ZeroDivisionError) \<and>
   NR_build_ybus (NRLoadFlow_init bus_data_pq2 line_data_zero True)
     = Inr ([[0, 0], [0, 0]], [ZeroImpedanceWarning 1 2],
            (NRLoadFlow_init bus_data_pq2 line_data_zero True)\<lparr>nr_Ybus := Some [[0, 0], [0, 0]]\<rparr>)"
  by (simp add: GS_build_ybus_def GS_solve_def NR_build_ybus_def GaussSeidel_init_def
      NRLoadFlow_init_def bus_data_pq2_def line_data_zero_def stamp_line_def zeros_def
      numeral_2_eq_2 Let_def complex_eq_iff)



section \<open>The Slack bus keeps its voltage\<close>

lemma fold_enumerate_other:
  "i \<notin> set ns \<Longrightarrow>
   fold (\<lambda>(idx, j) V. V[j := g idx j V]) (enumerate n ns) V ! i = V ! i"
  by (induction ns arbitrary: n V) auto

lemma update_angles_other:
  "i \<notin> set ns \<Longrightarrow> update_angles step_size dX ns V ! i = V ! i"
  unfolding update_angles_def Let_def by (rule fold_enumerate_other)

lemma update_magnitudes_other:
  "i \<notin> set pq \<Longrightarrow> update_magnitudes step_size dX nns pq V ! i = V ! i"
  unfolding update_magnitudes_def Let_def by (rule fold_enumerate_other)

lemma pq_buses_type: "i \<in> set (pq_buses types) \<Longrightarrow> i < length types \<and> types ! i = 3"
  by (auto simp: pq_buses_def in_set_enumerate_eq split: if_splits)

lemma pv_buses_type: "i \<in> set (pv_buses types) \<Longrightarrow> i < length types \<and> types ! i = 2"
  by (auto simp: pv_buses_def in_set_enumerate_eq split: if_splits)

lemma nr_newton_step_slack:
  assumes "types ! i = 1"
  shows "nl_V (step_state (nr_newton_step la Y types mismatch it st)) ! i = nl_V st ! i"
proof -
  from assms have "i \<notin> set (pv_buses types @ pq_buses types)" and "i \<notin> set (pq_buses types)"
    by (auto dest: pq_buses_type pv_buses_type)
  then show ?thesis
    by (simp add: nr_newton_step_def Let_def update_angles_other update_magnitudes_other
        split: option.splits)
qed

lemma nr_body_slack:
  assumes "types ! i = 1"
  shows "nl_V (step_state (nr_body la n_buses Y types P_spec Q_spec tol it st)) ! i = nl_V st ! i"
  by (simp add: nr_body_def Let_def nr_newton_step_slack [OF assms])

lemma gs_pq_update_other:
  "k \<noteq> i \<Longrightarrow> gs_pq_update Y P Q alpha i sYV V ! k = V ! k"
  by (simp add: gs_pq_update_def Let_def)

lemma gs_pv_update_other:
  "k \<noteq> i \<Longrightarrow> gs_pv_update Y Sbase P qlim vset alpha i sYV V ! k = V ! k"
  by (simp add: gs_pv_update_def Let_def)

lemma gs_bus_step_other:
  "k \<noteq> i \<or> b_type (gs_bus_data self ! i) = 1 \<Longrightarrow>
   sw_V (gs_bus_step self Y alpha V_prev i sw) ! k = sw_V sw ! k"
  by (auto simp: gs_bus_step_def Let_def gs_pq_update_other gs_pv_update_other)

lemma gs_sweep_slack:
  "b_type (gs_bus_data self ! k) = 1 \<Longrightarrow>
   sw_V (fold (gs_bus_step self Y alpha V_prev) is sw) ! k = sw_V sw ! k"
proof (induction "is" arbitrary: sw)
  case Nil
  then show ?case by simp
next
  case (Cons a "is")
  have "sw_V (gs_bus_step self Y alpha V_prev a sw) ! k = sw_V sw ! k"
    using Cons.prems by (cases "a = k") (simp_all add: gs_bus_step_other)
  with Cons show ?case by simp
qed

lemma gs_body_slack:
  assumes "b_type (gs_bus_data self ! i) = 1"
  shows "gl_V (step_state (gs_body self Y tol alpha it st)) ! i = gl_V st ! i"
  by (simp add: gs_body_def Let_def gs_sweep_slack [OF assms])

text \<open>
  C4.  One pass through the loop body of either solver leaves the voltage of a Slack
  bus (type code 1) as it was: the entry of the voltage vector is the same complex
  number before and after, whether the body ends in a break or goes on.
\<close>

theorem slack_invariance:
  assumes "i < length bus_data" and "b_type (bus_data ! i) = 1"
  shows "nl_V (step_state (nr_body la (length bus_data) Y (map b_type bus_data) P_spec Q_spec
                 tol it st)) ! i = nl_V st ! i \<and>
         gl_V (step_state (gs_body (GaussSeidel_init bus_data line_data Sbase\<lparr>gs_Ybus := Yb,
                 gs_iter_data := tr\<rparr>) Y tol alpha it st')) ! i = gl_V st' ! i"
  using assms by (simp add: nr_body_slack gs_body_slack GaussSeidel_init_def)


theorem slack_invariance_witness:
  "nl_V (step_state (nr_body linalg_zero (length bus_data_3bus) (zeros 3)
           (map b_type bus_data_3bus) P_spec_3bus Q_spec_3bus (1 / 10 ^ 6) 0 nr_locals_3bus)) ! 0
     = nl_V nr_locals_3bus ! 0 \<and>
   gl_V (step_state (gs_body (GaussSeidel_init bus_data_3bus line_data_3bus 1\<lparr>gs_Ybus := Some (zeros 3),
           gs_iter_data := []\<rparr>) (zeros 3) (1 / 10 ^ 6) 1 0 gs_locals_3bus)) ! 0
     = gl_V gs_locals_3bus ! 0"
proof -
  have i: "0 < length bus_data_3bus" and t: "b_type (bus_data_3bus ! 0) = 1"
    by (simp_all add: bus_data_3bus_def)
  show ?thesis
    by (rule slack_invariance [OF i t])
qed



section \<open>The convergence test of Newton-Raphson\<close>

lemma nr_newton_step_converged:
  "nl_converged (step_state (nr_newton_step la Y types mismatch it st)) = nl_converged st"
  by (simp add: nr_newton_step_def Let_def split: option.splits)

text \<open>
  C5, as the code has it.  A pass of the Newton-Raphson loop first looks at the length
  of the mismatch vector: when it is empty (no PV and no PQ bus) the pass declares
  convergence at once and breaks, and neither test is evaluated.  When it is not
  empty, convergence is declared exactly when the largest absolute mismatch is below
  \<open>tol\<close> and the root mean square of the mismatch is below \<open>tol / 10\<close>; then the loop
  breaks with the record of the iteration appended.  When either test fails the pass
  assembles the Jacobian \<open>J\<close> at the present voltages, asks the library for its
  condition number and for the solution \<open>dX\<close> of \<open>J dX = mismatch\<close>, and, unless the
  library raises, goes on with the voltages updated from \<open>dX\<close>: the angles of the PV
  and PQ buses first, then the magnitudes of the PQ buses, with step size 0.8 in the
  first three passes and 1 afterwards.
\<close>

theorem nr_convergence_test:
  assumes m: "mismatch = calc_power_mismatch Y (nl_V st) P_spec Q_spec types"
    and nc: "\<not> nl_converged st"
    and st1: "st1 = st\<lparr>nl_iteration_data := nl_iteration_data st @
                      [NRRecord (it + 1) (nr_bus_voltages n_buses (nl_V st))
                         (Max (set (map abs mismatch)))
                         (sqrt (sum_list (map (\<lambda>m. m ^ 2) mismatch) / real (length mismatch)))],
                    nl_max_mis := Some (Max (set (map abs mismatch)))\<rparr>"
    and pq: "pq = [i. (i, t) \<leftarrow> enumerate 0 types, t = 3]"
    and pv: "pv = [i. (i, t) \<leftarrow> enumerate 0 types, t = 2]"
    and ns: "non_slack = pv @ pq"
    and J: "J = map (\<lambda>i. map (J11 Y (nl_V st) i) non_slack @ map (J12 Y (nl_V st) i) pq) non_slack @
                map (\<lambda>i. map (J21 Y (nl_V st) i) non_slack @ map (J22 Y (nl_V st) i) pq) pq"
    and step: "step_size = (if it < 3 then 8 / 10 else 1)"
    and angles: "angles = (\<lambda>dX.
        fold (\<lambda>(idx, i) V. V[i := of_real (cmod (V ! i)) * cis (Arg (V ! i) + step_size * dX ! idx)])
          (enumerate 0 non_slack) (nl_V st))"
    and magnitudes: "magnitudes = (\<lambda>dX.
        fold (\<lambda>(idx, i) V.
                V[i := of_real (min (max (cmod (V ! i) + step_size * dX ! (length non_slack + idx))
                                      (1 / 2)) (3 / 2)) * cis (Arg (V ! i))])
          (enumerate 0 pq))"
  shows "(mismatch = [] \<longrightarrow>
            nr_body la n_buses Y types P_spec Q_spec tol it st = Break (st\<lparr>nl_converged := True\<rparr>)) \<and>
         (mismatch \<noteq> [] \<longrightarrow>
            (nl_converged (step_state (nr_body la n_buses Y types P_spec Q_spec tol it st)) \<longleftrightarrow>
               Max (set (map abs mismatch)) < tol \<and>
               sqrt (sum_list (map (\<lambda>m. m ^ 2) mismatch) / real (length mismatch)) < tol / 10) \<and>
            (Max (set (map abs mismatch)) < tol \<and>
               sqrt (sum_list (map (\<lambda>m. m ^ 2) mismatch) / real (length mismatch)) < tol / 10 \<longrightarrow>
               nr_body la n_buses Y types P_spec Q_spec tol it st
                 = Break (st1\<lparr>nl_converged := True\<rparr>)) \<and>
            (\<not> (Max (set (map abs mismatch)) < tol \<and>
               sqrt (sum_list (map (\<lambda>m. m ^ 2) mismatch) / real (length mismatch)) < tol / 10) \<longrightarrow>
               nr_body la n_buses Y types P_spec Q_spec tol it st =
                 (case linalg_cond la J of
                    None \<Rightarrow> Break (st1\<lparr>nl_out := nl_out st @ [SingularJacobianError (it + 1)]\<rparr>)
                  | Some c \<Rightarrow>
                      (case linalg_solve la J mismatch of
                         None \<Rightarrow>
                           Break (st1\<lparr>nl_out := nl_out st @
                             (if c > 10 ^ 12 then [IllConditionedWarning (it + 1)] else []) @
                             [SingularJacobianError (it + 1)]\<rparr>)
                       | Some dX \<Rightarrow>
                           Continue (st1\<lparr>nl_out := nl_out st @
                               (if c > 10 ^ 12 then [IllConditionedWarning (it + 1)] else []),
                             nl_V := magnitudes dX (angles dX)\<rparr>)))))"
proof (intro conjI impI)
  assume "mismatch = []"
  then show "nr_body la n_buses Y types P_spec Q_spec tol it st = Break (st\<lparr>nl_converged := True\<rparr>)"
    by (simp add: nr_body_def Let_def m [symmetric])
next
  assume ne: "mismatch \<noteq> []"
  have t: "nr_converged_test tol mismatch \<longleftrightarrow>
      Max (set (map abs mismatch)) < tol \<and>
      sqrt (sum_list (map (\<lambda>m. m ^ 2) mismatch) / real (length mismatch)) < tol / 10"
    by (simp add: nr_converged_test_def np_max_def rms_def np_mean_def)
  have b: "nr_body la n_buses Y types P_spec Q_spec tol it st =
      (if nr_converged_test tol mismatch then Break (st1\<lparr>nl_converged := True\<rparr>)
       else nr_newton_step la Y types mismatch it st1)"
    using ne unfolding st1 m
    by (simp add: nr_body_def Let_def np_max_def rms_def np_mean_def)
  have c: "\<not> nl_converged st1" using nc by (simp add: st1)
  have v: "nl_V st1 = nl_V st" and o: "nl_out st1 = nl_out st" by (simp_all add: st1)
  show "nl_converged (step_state (nr_body la n_buses Y types P_spec Q_spec tol it st)) \<longleftrightarrow>
      Max (set (map abs mismatch)) < tol \<and>
      sqrt (sum_list (map (\<lambda>m. m ^ 2) mismatch) / real (length mismatch)) < tol / 10"
    unfolding b t [symmetric] using c by (simp add: nr_newton_step_converged)
  {
    assume "Max (set (map abs mismatch)) < tol \<and>
      sqrt (sum_list (map (\<lambda>m. m ^ 2) mismatch) / real (length mismatch)) < tol / 10"
    then have "nr_converged_test tol mismatch" by (simp add: t)
    then show "nr_body la n_buses Y types P_spec Q_spec tol it st
        = Break (st1\<lparr>nl_converged := True\<rparr>)"
      by (simp add: b)
  }
  {
    assume "\<not> (Max (set (map abs mismatch)) < tol \<and>
      sqrt (sum_list (map (\<lambda>m. m ^ 2) mismatch) / real (length mismatch)) < tol / 10)"
    then have "\<not> nr_converged_test tol mismatch" by (simp add: t)
    then have "nr_body la n_buses Y types P_spec Q_spec tol it st
        = nr_newton_step la Y types mismatch it st1"
      by (simp add: b)
    also have "\<dots> =
        (case linalg_cond la J of
           None \<Rightarrow> Break (st1\<lparr>nl_out := nl_out st @ [SingularJacobianError (it + 1)]\<rparr>)
         | Some c \<Rightarrow>
             (case linalg_solve la J mismatch of
                None \<Rightarrow>
                  Break (st1\<lparr>nl_out := nl_out st @
                    (if c > 10 ^ 12 then [IllConditionedWarning (it + 1)] else []) @
                    [SingularJacobianError (it + 1)]\<rparr>)
              | Some dX \<Rightarrow>
                  Continue (st1\<lparr>nl_out := nl_out st @
                      (if c > 10 ^ 12 then [IllConditionedWarning (it + 1)] else []),
                    nl_V := magnitudes dX (angles dX)\<rparr>)))"
      unfolding nr_newton_step_def Let_def v J ns step angles magnitudes pq pv
        build_jacobian_optimized_def pq_buses_def pv_buses_def update_angles_def
        update_magnitudes_def clip_def
      by (simp add: o [symmetric] split: option.splits)
    finally show "nr_body la n_buses Y types P_spec Q_spec tol it st =
        (case linalg_cond la J of
           None \<Rightarrow> Break (st1\<lparr>nl_out := nl_out st @ [SingularJacobianError (it + 1)]\<rparr>)
         | Some c \<Rightarrow>
             (case linalg_solve la J mismatch of
                None \<Rightarrow>
                  Break (st1\<lparr>nl_out := nl_out st @
                    (if c > 10 ^ 12 then [IllConditionedWarning (it + 1)] else []) @
                    [SingularJacobianError (it + 1)]\<rparr>)
              | Some dX \<Rightarrow>
                  Continue (st1\<lparr>nl_out := nl_out st @
                      (if c > 10 ^ 12 then [IllConditionedWarning (it + 1)] else []),
                    nl_V := magnitudes dX (angles dX)\<rparr>)))" .
  }
qed

section \<open>Starting voltages\<close>

text \<open>
  C9.  The starting voltage of \<^verbatim>\<open>solve\<close>: in Newton-Raphson a PQ bus (type 3) starts
  at \<open>0.95 - 0.05j\<close> and a PV bus (type 2) at its magnitude set-point with angle 0; in
  Gauss-Seidel every bus that is not the Slack bus starts at \<open>0.95 - 0.05j\<close>.  The
  constant does not mention the record, so the magnitude and angle columns of the bus
  have no effect on it.
\<close>

theorem initial_voltages:
  assumes "i < length bus_data"
  shows "(b_type (bus_data ! i) = 3 \<longrightarrow>
            fst (snd (extract_bus_params (NRLoadFlow_init bus_data line_data use_sparse))) ! i
              = Complex (95 / 100) (- (5 / 100))) \<and>
         (b_type (bus_data ! i) = 2 \<longrightarrow>
            fst (snd (extract_bus_params (NRLoadFlow_init bus_data line_data use_sparse))) ! i
              = Complex (b_vm (bus_data ! i)) 0) \<and>
         (b_type (bus_data ! i) \<noteq> 1 \<longrightarrow>
            gs_initial_voltages (GaussSeidel_init bus_data line_data Sbase) ! i
              = Complex (95 / 100) (- (5 / 100)))"
  using assms
  by (simp add: extract_bus_params_def NRLoadFlow_init_def Let_def nr_initial_voltage_def
      gs_initial_voltages_def GaussSeidel_init_def gs_initial_voltage_def)

theorem initial_voltages_witness:
  "fst (snd (extract_bus_params (NRLoadFlow_init bus_data_3bus line_data_3bus True))) ! 2
     = Complex (95 / 100) (- (5 / 100)) \<and>
   fst (snd (extract_bus_params (NRLoadFlow_init bus_data_3bus line_data_3bus True))) ! 1
     = Complex (103 / 100) 0 \<and>
   gs_initial_voltages (GaussSeidel_init bus_data_3bus line_data_3bus 1) ! 1
     = Complex (95 / 100) (- (5 / 100)) \<and>
   gs_initial_voltages (GaussSeidel_init bus_data_3bus line_data_3bus 1) ! 2
     = Complex (95 / 100) (- (5 / 100))"
proof -
  have l1: "1 < length bus_data_3bus" and l2: "2 < length bus_data_3bus"
    by (simp_all add: bus_data_3bus_def)
  have t1: "b_type (bus_data_3bus ! 1) = 2" and t2: "b_type (bus_data_3bus ! 2) = 3"
    and v1: "b_vm (bus_data_3bus ! 1) = 103 / 100"
    by (simp_all add: bus_data_3bus_def)
  from initial_voltages [OF l1, of line_data_3bus True 1]
       initial_voltages [OF l2, of line_data_3bus True 1] t1 t2 v1
  show ?thesis
    by simp
qed

lemma nr_ybus_loop_messages:
  "nr_ybus_loop nb ls Y w = Inr (Y', w') \<Longrightarrow> m \<in> set w' \<Longrightarrow>
   m \<in> set w \<or> (\<exists>i j. m = ZeroImpedanceWarning i j)"
proof (induction ls arbitrary: Y w)
  case Nil
  then show ?case by simp
next
  case (Cons l ls)
  show ?case
  proof (cases "\<bar>l_r l\<bar> < 1 / 10 ^ 12 \<and> \<bar>l_x l\<bar> < 1 / 10 ^ 12")
    case True
    with Cons.prems have "nr_ybus_loop nb ls Y
        (w @ [ZeroImpedanceWarning (l_from l - 1 + 1) (l_to l - 1 + 1)]) = Inr (Y', w')"
      by simp
    from Cons.IH [OF this Cons.prems(2)] show ?thesis by auto
  next
    case False
    with Cons.prems obtain Y1 where "nr_ybus_loop nb ls Y1 w = Inr (Y', w')"
      by (auto split: sum.splits)
    from Cons.IH [OF this Cons.prems(2)] show ?thesis .
  qed
qed

lemma NR_build_ybus_messages:
  "NR_build_ybus self = Inr (Y, w, self') \<Longrightarrow> m \<in> set w \<Longrightarrow>
   \<exists>i j. m = ZeroImpedanceWarning i j"
  using nr_ybus_loop_messages [of "nr_n_buses self" "nr_line_data self" "zeros (nr_n_buses self)"
      "[]" Y w m]
  by (auto simp: NR_build_ybus_def Let_def split: sum.splits)

lemma NR_build_ybus_fields:
  "NR_build_ybus self = Inr (Y, w, self') \<Longrightarrow> self' = self\<lparr>nr_Ybus := Some Y\<rparr>"
  by (auto simp: NR_build_ybus_def Let_def split: sum.splits)

lemma calc_power_mismatch_slack_only: "calc_power_mismatch Y V P_spec Q_spec [1] = []"
  by (simp add: calc_power_mismatch_def power_calculation_vectorized_def Let_def)

section \<open>The trace of Gauss-Seidel is never emptied\<close>

lemma gs_body_trace:
  "\<exists>r. gl_iter_data (step_state (gs_body self Y tol alpha it st)) = gl_iter_data st @ [r]"
  by (simp add: gs_body_def Let_def)

lemma gs_body_Break: "gs_body self Y tol alpha it st = Break st' \<Longrightarrow> gl_converged st'"
  by (auto simp: gs_body_def Let_def split: if_splits)

lemma gs_body_Continue:
  "gs_body self Y tol alpha it st = Continue st' \<Longrightarrow> gl_converged st' = gl_converged st"
  by (auto simp: gs_body_def Let_def split: if_splits)

lemma gs_loop_trace:
  "\<exists>new. gl_iter_data (gs_loop self Y tol alpha n it st) = gl_iter_data st @ new \<and>
         (0 < n \<longrightarrow> new \<noteq> []) \<and>
         (\<not> gl_converged st \<longrightarrow> \<not> gl_converged (gs_loop self Y tol alpha n it st) \<longrightarrow>
            length new = n)"
proof (induction n arbitrary: it st)
  case 0
  then show ?case by simp
next
  case (Suc n)
  obtain r where r: "gl_iter_data (step_state (gs_body self Y tol alpha it st))
      = gl_iter_data st @ [r]"
    using gs_body_trace by blast
  show ?case
  proof (cases "gs_body self Y tol alpha it st")
    case (Break st')
    with r gs_body_Break [OF Break] show ?thesis by simp
  next
    case (Continue st')
    from Suc.IH [of "Suc it" st'] obtain new where
      n: "gl_iter_data (gs_loop self Y tol alpha n (Suc it) st') = gl_iter_data st' @ new"
      and l: "\<not> gl_converged st' \<longrightarrow> \<not> gl_converged (gs_loop self Y tol alpha n (Suc it) st') \<longrightarrow>
            length new = n"
      by blast
    from r Continue have "gl_iter_data st' = gl_iter_data st @ [r]" by simp
    with n l gs_body_Continue [OF Continue] Continue show ?thesis
      by (intro exI [of _ "r # new"]) simp
  qed
qed

lemma GS_build_ybus_fields:
  "GS_build_ybus self = Inr (Y, self1) \<Longrightarrow> self1 = self\<lparr>gs_Ybus := Some Y\<rparr>"
  by (auto simp: GS_build_ybus_def Let_def split: sum.splits)

lemma GS_solve_result:
  assumes "GS_build_ybus self = Inr (Y, self1)"
  shows "GS_solve self tol max_iter alpha =
     Inr ([Voltages (gl_V (gs_solve_loop self1 Y tol max_iter alpha)),
           IterationData (gl_iter_data (gs_solve_loop self1 Y tol max_iter alpha))],
          (if \<not> gl_converged (gs_solve_loop self1 Y tol max_iter alpha)
           then [GSNotConvergedWarning] else []),
          self1\<lparr>gs_V_final := Some (gl_V (gs_solve_loop self1 Y tol max_iter alpha)),
                 gs_iter_data := gl_iter_data (gs_solve_loop self1 Y tol max_iter alpha)\<rparr>)"
  by (simp add: GS_solve_def assms Let_def)

lemma gs_solve_loop_trace:
  "\<exists>new. gl_iter_data (gs_solve_loop self1 Y tol max_iter alpha) = gs_iter_data self1 @ new \<and>
         (0 < max_iter \<longrightarrow> new \<noteq> []) \<and>
         (\<not> gl_converged (gs_solve_loop self1 Y tol max_iter alpha) \<longrightarrow>
            length new = nat max_iter)"
  using gs_loop_trace [of self1 Y tol alpha "nat max_iter" 0
      "\<lparr>gl_V = gs_initial_voltages self1, gl_iter_data = gs_iter_data self1,
        gl_converged = False\<rparr>"]
  by (simp add: gs_solve_loop_def Let_def)

lemma GaussSeidel_init_iter_data: "gs_iter_data (GaussSeidel_init bus_data line_data Sbase) = []"
  by (simp add: GaussSeidel_init_def)

lemma GS_build_ybus_same_tables:
  assumes "GS_build_ybus self = Inr (Y, self1)"
    and "gs_bus_data self' = gs_bus_data self" and "gs_line_data self' = gs_line_data self"
  shows "GS_build_ybus self' = Inr (Y, self'\<lparr>gs_Ybus := Some Y\<rparr>)"
  using assms by (auto simp: GS_build_ybus_def Let_def split: sum.splits)

lemma GS_solve_Inr_build:
  "GS_solve self tol max_iter alpha = Inr r \<Longrightarrow> \<exists>Y self1. GS_build_ybus self = Inr (Y, self1)"
  by (cases "GS_build_ybus self") (auto simp: GS_solve_def)

text \<open>
  C10.  \<^verbatim>\<open>GaussSeidel.solve\<close> appends its records to the field \<^verbatim>\<open>iter_data\<close> and
  never empties it: a call that returns gives back the trace the instance held before,
  followed by the records of this call (at least one when \<^verbatim>\<open>max_iter\<close> is
  positive), and leaves that list in the field.  A second call on the same instance
  returns as well, and its trace begins with every record of the first call.
\<close>

theorem iter_data_accumulates:
  assumes first: "GS_solve self tol1 max_iter1 alpha1 = Inr (ret1, out1, self1)"
  shows "\<exists>V1 new1 V2 new2 out2 self2.
           ret1 = [Voltages V1, IterationData (gs_iter_data self @ new1)] \<and>
           gs_iter_data self1 = gs_iter_data self @ new1 \<and>
           (0 < max_iter1 \<longrightarrow> new1 \<noteq> []) \<and>
           GS_solve self1 tol2 max_iter2 alpha2
             = Inr ([Voltages V2, IterationData (gs_iter_data self @ new1 @ new2)], out2, self2) \<and>
           gs_iter_data self2 = gs_iter_data self @ new1 @ new2"
proof -
  from GS_solve_Inr_build [OF first] obtain Y s1' where
    b0: "GS_build_ybus self = Inr (Y, s1')" by blast
  from GS_build_ybus_fields [OF b0] b0
  have b1: "GS_build_ybus self = Inr (Y, self\<lparr>gs_Ybus := Some Y\<rparr>)" by simp
  define s1 where "s1 = self\<lparr>gs_Ybus := Some Y\<rparr>"
  define st1 where "st1 = gs_solve_loop s1 Y tol1 max_iter1 alpha1"
  define out1' where "out1' = (if \<not> gl_converged st1 then [GSNotConvergedWarning] else [])"
  have i1: "gs_iter_data s1 = gs_iter_data self" by (simp add: s1_def)
  obtain new1 where n1: "gl_iter_data st1 = gs_iter_data self @ new1"
    and p1: "0 < max_iter1 \<longrightarrow> new1 \<noteq> []"
    using gs_solve_loop_trace [of s1 Y tol1 max_iter1 alpha1] unfolding st1_def i1 by blast
  have r1: "GS_solve self tol1 max_iter1 alpha1
      = Inr ([Voltages (gl_V st1), IterationData (gl_iter_data st1)], out1',
             s1\<lparr>gs_V_final := Some (gl_V st1), gs_iter_data := gl_iter_data st1\<rparr>)"
    using GS_solve_result [OF b1, of tol1 max_iter1 alpha1]
    unfolding s1_def [symmetric] st1_def [symmetric] out1'_def .
  from first r1 have ret1: "ret1 = [Voltages (gl_V st1), IterationData (gl_iter_data st1)]"
    and self1: "self1 = s1\<lparr>gs_V_final := Some (gl_V st1), gs_iter_data := gl_iter_data st1\<rparr>"
    by simp_all
  have f1: "gs_iter_data self1 = gl_iter_data st1" by (simp add: self1)
  have "gs_bus_data self1 = gs_bus_data self" "gs_line_data self1 = gs_line_data self"
    by (simp_all add: self1 s1_def)
  from GS_build_ybus_same_tables [OF b0 this]
  have b2: "GS_build_ybus self1 = Inr (Y, self1\<lparr>gs_Ybus := Some Y\<rparr>)" .
  define s2 where "s2 = self1\<lparr>gs_Ybus := Some Y\<rparr>"
  define st2 where "st2 = gs_solve_loop s2 Y tol2 max_iter2 alpha2"
  define self2 where "self2 = s2\<lparr>gs_V_final := Some (gl_V st2), gs_iter_data := gl_iter_data st2\<rparr>"
  define out2 where "out2 = (if \<not> gl_converged st2 then [GSNotConvergedWarning] else [])"
  have i2: "gs_iter_data s2 = gl_iter_data st1" by (simp add: s2_def f1)
  obtain new2 where n2: "gl_iter_data st2 = gl_iter_data st1 @ new2"
    using gs_solve_loop_trace [of s2 Y tol2 max_iter2 alpha2] unfolding st2_def i2 by blast
  have r2: "GS_solve self1 tol2 max_iter2 alpha2
      = Inr ([Voltages (gl_V st2), IterationData (gl_iter_data st2)], out2, self2)"
    using GS_solve_result [OF b2, of tol2 max_iter2 alpha2]
    unfolding s2_def [symmetric] st2_def [symmetric] self2_def out2_def .
  have f2: "gs_iter_data self2 = gl_iter_data st2" by (simp add: self2_def)
  have "ret1 = [Voltages (gl_V st1), IterationData (gs_iter_data self @ new1)] \<and>
           gs_iter_data self1 = gs_iter_data self @ new1 \<and>
           (0 < max_iter1 \<longrightarrow> new1 \<noteq> []) \<and>
           GS_solve self1 tol2 max_iter2 alpha2
             = Inr ([Voltages (gl_V st2), IterationData (gs_iter_data self @ new1 @ new2)], out2, self2) \<and>
           gs_iter_data self2 = gs_iter_data self @ new1 @ new2"
    unfolding ret1 r2 f1 f2 n2 n1 using p1 by simp
  then show ?thesis by blast
qed

section \<open>The network of the Slack bus alone\<close>

lemma NR_solve_slack_only:
  assumes t: "b_type b = 1"
    and it: "0 < max_iter"
    and build: "NR_build_ybus (NRLoadFlow_init [b] line_data use_sparse) = Inr (Y, w, self1)"
  shows "NR_solve la (NRLoadFlow_init [b] line_data use_sparse) tol max_iter
           = Inr ([Voltages [of_real (b_vm b) * cis (radians (b_va b))], IterationData []], w,
                  self1\<lparr>nr_V_final := Some [of_real (b_vm b) * cis (radians (b_va b))],
                         nr_iter_data := Some []\<rparr>) \<and>
         NRNotConvergedWarning max_iter \<notin> set w"
proof -
  from it obtain n where n: "nat max_iter = Suc n"
    by (cases "nat max_iter") auto
  from NR_build_ybus_fields [OF build]
  have s1: "self1 = (NRLoadFlow_init [b] line_data use_sparse)\<lparr>nr_Ybus := Some Y\<rparr>" .
  have e: "extract_bus_params self1 =
      ([1], [of_real (b_vm b) * cis (radians (b_va b))], [b_PG b - b_PL b], [b_QG b - b_QL b])"
    by (simp add: s1 extract_bus_params_def NRLoadFlow_init_def Let_def nr_initial_voltage_def t)
  have w: "NRNotConvergedWarning max_iter \<notin> set w"
    using NR_build_ybus_messages [OF build] by auto
  have "NR_solve la (NRLoadFlow_init [b] line_data use_sparse) tol max_iter
           = Inr ([Voltages [of_real (b_vm b) * cis (radians (b_va b))], IterationData []], w,
                  self1\<lparr>nr_V_final := Some [of_real (b_vm b) * cis (radians (b_va b))],
                         nr_iter_data := Some []\<rparr>)"
    by (simp add: NR_solve_def nr_solve_loop_def build e n nr_body_def
        calc_power_mismatch_slack_only Let_def)
  with w show ?thesis by simp
qed

lemma GS_solve_slack_only:
  assumes t: "b_type b = 1" and tol: "0 < tol" and it: "0 < max_iter"
    and build: "GS_build_ybus (GaussSeidel_init [b] line_data Sbase) = Inr (Y, self1)"
  shows "GS_solve (GaussSeidel_init [b] line_data Sbase) tol max_iter alpha
           = Inr ([Voltages [of_real (b_vm b) * cis (radians (b_va b))],
                   IterationData [GSRecord 1 0 0
                     (polar_display [of_real (b_vm b) * cis (radians (b_va b))])]],
                  [],
                  self1\<lparr>gs_V_final := Some [of_real (b_vm b) * cis (radians (b_va b))],
                         gs_iter_data := [GSRecord 1 0 0
                           (polar_display [of_real (b_vm b) * cis (radians (b_va b))])]\<rparr>)"
proof -
  from it obtain n where n: "nat max_iter = Suc n"
    by (cases "nat max_iter") auto
  from GS_build_ybus_fields [OF build]
  have s1: "self1 = (GaussSeidel_init [b] line_data Sbase)\<lparr>gs_Ybus := Some Y\<rparr>" .
  have l: "gs_solve_loop self1 Y tol max_iter alpha
      = \<lparr>gl_V = [of_real (b_vm b) * cis (radians (b_va b))],
         gl_iter_data = [GSRecord 1 0 0
           (polar_display [of_real (b_vm b) * cis (radians (b_va b))])],
         gl_converged = True\<rparr>"
    using t tol
    by (simp add: s1 GaussSeidel_init_def gs_solve_loop_def gs_initial_voltages_def
        gs_initial_voltage_def n gs_body_def gs_bus_step_def Let_def)
  show ?thesis
    unfolding GS_solve_result [OF build] l by simp
qed

text \<open>
  C6, as the code has it.  On a network of the Slack bus alone, with an iteration
  budget of at least one, Newton-Raphson's \<^verbatim>\<open>solve\<close> finds the mismatch vector empty
  in its first pass, sets \<^verbatim>\<open>converged\<close> and leaves the loop: it returns the Slack
  bus's set-point \<open>|V| \<angle> angle\<close> as the only voltage and an empty trace, and prints no
  non-convergence message.  Gauss-Seidel's \<^verbatim>\<open>solve\<close>, with a positive tolerance, makes
  one sweep that passes over the Slack bus, records it with voltage and power mismatch
  0, and converges: it returns the same voltage, unchanged, and a trace of one record.
\<close>

theorem slack_only_network:
  assumes t: "b_type b = 1" and it: "0 < max_iter"
  shows "(NR_build_ybus (NRLoadFlow_init [b] line_data use_sparse) = Inr (Y, w, nr1) \<longrightarrow>
            NR_solve la (NRLoadFlow_init [b] line_data use_sparse) tol max_iter
              = Inr ([Voltages [of_real (b_vm b) * cis (radians (b_va b))], IterationData []], w,
                     nr1\<lparr>nr_V_final := Some [of_real (b_vm b) * cis (radians (b_va b))],
                           nr_iter_data := Some []\<rparr>) \<and>
            NRNotConvergedWarning max_iter \<notin> set w) \<and>
         (GS_build_ybus (GaussSeidel_init [b] line_data Sbase) = Inr (Y', gs1) \<and> 0 < tol' \<longrightarrow>
            GS_solve (GaussSeidel_init [b] line_data Sbase) tol' max_iter alpha
              = Inr ([Voltages [of_real (b_vm b) * cis (radians (b_va b))],
                      IterationData [GSRecord 1 0 0
                        (polar_display [of_real (b_vm b) * cis (radians (b_va b))])]],
                     [],
                     gs1\<lparr>gs_V_final := Some [of_real (b_vm b) * cis (radians (b_va b))],
                           gs_iter_data := [GSRecord 1 0 0
                             (polar_display [of_real (b_vm b) * cis (radians (b_va b))])]\<rparr>))"
proof (rule conjI)
  show "NR_build_ybus (NRLoadFlow_init [b] line_data use_sparse) = Inr (Y, w, nr1) \<longrightarrow>
            NR_solve la (NRLoadFlow_init [b] line_data use_sparse) tol max_iter
              = Inr ([Voltages [of_real (b_vm b) * cis (radians (b_va b))], IterationData []], w,
                     nr1\<lparr>nr_V_final := Some [of_real (b_vm b) * cis (radians (b_va b))],
                           nr_iter_data := Some []\<rparr>) \<and>
            NRNotConvergedWarning max_iter \<notin> set w"
    using NR_solve_slack_only [OF t it] by blast
  show "GS_build_ybus (GaussSeidel_init [b] line_data Sbase) = Inr (Y', gs1) \<and> 0 < tol' \<longrightarrow>
            GS_solve (GaussSeidel_init [b] line_data Sbase) tol' max_iter alpha
              = Inr ([Voltages [of_real (b_vm b) * cis (radians (b_va b))],
                      IterationData [GSRecord 1 0 0
                        (polar_display [of_real (b_vm b) * cis (radians (b_va b))])]],
                     [],
                     gs1\<lparr>gs_V_final := Some [of_real (b_vm b) * cis (radians (b_va b))],
                           gs_iter_data := [GSRecord 1 0 0
                             (polar_display [of_real (b_vm b) * cis (radians (b_va b))])]\<rparr>)"
    using GS_solve_slack_only [OF t _ it] by blast
qed

theorem slack_only_network_witness:
  "NR_solve linalg_singular (NRLoadFlow_init bus_data_slack_only [] True) (1 / 10 ^ 6) 20
     = Inr ([Voltages [of_real (105 / 100) * cis (radians 0)], IterationData []], [],
            (NRLoadFlow_init bus_data_slack_only [] True)\<lparr>nr_Ybus := Some [[0]],
               nr_V_final := Some [of_real (105 / 100) * cis (radians 0)],
               nr_iter_data := Some []\<rparr>) \<and>
   GS_solve (GaussSeidel_init bus_data_slack_only [] 1) (1 / 10 ^ 6) 20 1
     = Inr ([Voltages [of_real (105 / 100) * cis (radians 0)],
             IterationData [GSRecord 1 0 0 (polar_display [of_real (105 / 100) * cis (radians 0)])]],
            [],
            (GaussSeidel_init bus_data_slack_only [] 1)\<lparr>gs_Ybus := Some [[0]],
               gs_V_final := Some [of_real (105 / 100) * cis (radians 0)],
               gs_iter_data :=
                 [GSRecord 1 0 0 (polar_display [of_real (105 / 100) * cis (radians 0)])]\<rparr>)"
proof -
  let ?b = "\<lparr>b_no = 1, b_type = 1, b_vm = 105 / 100, b_va = 0, b_PG = 0, b_QG = 0,
       b_PL = 0, b_QL = 0, b_qlim = None\<rparr>"
  have t: "b_type ?b = 1" by simp
  have it: "(0::int) < 20" by simp
  have tol: "(0::real) < 1 / 10 ^ 6" by simp
  have nb: "NR_build_ybus (NRLoadFlow_init [?b] [] True)
      = Inr ([[0]], [], (NRLoadFlow_init [?b] [] True)\<lparr>nr_Ybus := Some [[0]]\<rparr>)"
    by (simp add: NR_build_ybus_def NRLoadFlow_init_def zeros_def)
  have gb: "GS_build_ybus (GaussSeidel_init [?b] [] 1)
      = Inr ([[0]], (GaussSeidel_init [?b] [] 1)\<lparr>gs_Ybus := Some [[0]]\<rparr>)"
    by (simp add: GS_build_ybus_def GaussSeidel_init_def zeros_def)
  note th = slack_only_network [OF t it, where line_data = "[]" and use_sparse = True
      and Y = "[[0]]" and w = "[]"
      and ?nr1.0 = "(NRLoadFlow_init [?b] [] True)\<lparr>nr_Ybus := Some [[0]]\<rparr>"
      and la = linalg_singular and tol = "1 / 10 ^ 6" and Sbase = 1 and Y' = "[[0]]"
      and ?gs1.0 = "(GaussSeidel_init [?b] [] 1)\<lparr>gs_Ybus := Some [[0]]\<rparr>"
      and tol' = "1 / 10 ^ 6" and alpha = 1]
  from th nb gb tol show ?thesis
    by (simp add: bus_data_slack_only_def)
qed

text \<open>
  C6, as it is stated, fails for Gauss-Seidel: on the network of the Slack bus alone
  its \<^verbatim>\<open>solve\<close> converges, and returns the set-point unchanged, but with a trace of
  one record, not of none: the record of a sweep is appended before the voltage change
  is compared with the tolerance.
\<close>

theorem slack_only_gauss_seidel_one_record:
  "GS_solve (GaussSeidel_init bus_data_slack_only [] 1) (1 / 10 ^ 6) 100 1
     = Inr ([Voltages [105 / 100],
             IterationData [GSRecord 1 0 0 (polar_display [105 / 100])]],
            [],
            (GaussSeidel_init bus_data_slack_only [] 1)\<lparr>gs_Ybus := Some [[0]],
               gs_V_final := Some [105 / 100],
               gs_iter_data := [GSRecord 1 0 0 (polar_display [105 / 100])]\<rparr>)"
proof -
  let ?b = "\<lparr>b_no = 1, b_type = 1, b_vm = 105 / 100, b_va = 0, b_PG = 0, b_QG = 0,
       b_PL = 0, b_QL = 0, b_qlim = None\<rparr>"
  have t: "b_type ?b = 1" by simp
  have it: "(0::int) < 100" by simp
  have tol: "(0::real) < 1 / 10 ^ 6" by simp
  have gb: "GS_build_ybus (GaussSeidel_init [?b] [] 1)
      = Inr ([[0]], (GaussSeidel_init [?b] [] 1)\<lparr>gs_Ybus := Some [[0]]\<rparr>)"
    by (simp add: GS_build_ybus_def GaussSeidel_init_def zeros_def)
  from GS_solve_slack_only [OF t tol it gb, of 1] show ?thesis
    by (simp add: bus_data_slack_only_def radians_def)
qed

section \<open>Leaving the loop without convergence\<close>

lemma nr_newton_step_Continue:
  "nr_newton_step la Y types mismatch it st = Continue st' \<Longrightarrow>
   nl_converged st' = nl_converged st \<and> nl_iteration_data st' = nl_iteration_data st \<and>
   nl_max_mis st' = nl_max_mis st \<and>
   (\<forall>k. SingularJacobianError k \<in> set (nl_out st) \<longrightarrow> SingularJacobianError k \<in> set (nl_out st'))"
  by (auto simp: nr_newton_step_def Let_def split: option.splits if_splits)

lemma nr_newton_step_Break:
  "nr_newton_step la Y types mismatch it st = Break st' \<Longrightarrow>
   nl_converged st' = nl_converged st \<and> nl_iteration_data st' = nl_iteration_data st \<and>
   nl_max_mis st' = nl_max_mis st \<and> SingularJacobianError (it + 1) \<in> set (nl_out st')"
  by (auto simp: nr_newton_step_def Let_def split: option.splits if_splits)

lemma nr_body_Continue:
  assumes "nr_body la n_buses Y types P_spec Q_spec tol it st = Continue st'"
  shows "nl_converged st' = nl_converged st \<and>
         length (nl_iteration_data st') = Suc (length (nl_iteration_data st)) \<and>
         nl_max_mis st' \<noteq> None \<and>
         (\<forall>k. SingularJacobianError k \<in> set (nl_out st) \<longrightarrow> SingularJacobianError k \<in> set (nl_out st'))"
  using assms
  by (auto simp: nr_body_def Let_def split: if_splits dest!: nr_newton_step_Continue)

lemma nr_body_Break:
  assumes "nr_body la n_buses Y types P_spec Q_spec tol it st = Break st'"
  shows "nl_converged st' \<or>
         (nl_max_mis st' \<noteq> None \<and> SingularJacobianError (it + 1) \<in> set (nl_out st'))"
  using assms
  by (auto simp: nr_body_def Let_def split: if_splits dest!: nr_newton_step_Break)

lemma nr_loop_not_converged:
  assumes "\<not> nl_converged st"
    and "\<not> nl_converged (nr_loop la n_buses Y types P_spec Q_spec tol n it st)"
  shows "(0 < n \<or> nl_max_mis st \<noteq> None \<longrightarrow>
            nl_max_mis (nr_loop la n_buses Y types P_spec Q_spec tol n it st) \<noteq> None) \<and>
         ((\<forall>k. SingularJacobianError k \<notin>
               set (nl_out (nr_loop la n_buses Y types P_spec Q_spec tol n it st))) \<longrightarrow>
            length (nl_iteration_data (nr_loop la n_buses Y types P_spec Q_spec tol n it st))
              = length (nl_iteration_data st) + n)"
  using assms
proof (induction n arbitrary: it st)
  case 0
  then show ?case by simp
next
  case (Suc n)
  show ?case
  proof (cases "nr_body la n_buses Y types P_spec Q_spec tol it st")
    case (Break st')
    with Suc.prems nr_body_Break [OF Break] show ?thesis by auto
  next
    case (Continue st')
    note c = nr_body_Continue [OF Continue]
    from c Suc.prems(1) have nc: "\<not> nl_converged st'" by simp
    from Suc.prems(2) Continue
    have nf: "\<not> nl_converged (nr_loop la n_buses Y types P_spec Q_spec tol n (Suc it) st')"
      by simp
    from Suc.IH [OF nc nf] c Continue show ?thesis by simp
  qed
qed

lemma NR_solve_not_converged:
  assumes build: "NR_build_ybus self = Inr (Y, w, self1)"
    and it: "0 < max_iter"
    and nc: "\<not> nl_converged (nr_solve_loop la self1 Y w tol max_iter)"
  shows "(\<exists>m. NR_solve la self tol max_iter =
            Inr ([Voltages (nl_V (nr_solve_loop la self1 Y w tol max_iter)),
                  IterationData (nl_iteration_data (nr_solve_loop la self1 Y w tol max_iter))],
                 nl_out (nr_solve_loop la self1 Y w tol max_iter) @
                   [NRNotConvergedWarning max_iter, NRFinalMismatch m],
                 self1\<lparr>nr_V_final := Some (nl_V (nr_solve_loop la self1 Y w tol max_iter)),
                        nr_iter_data :=
                          Some (nl_iteration_data (nr_solve_loop la self1 Y w tol max_iter))\<rparr>)) \<and>
         ((\<forall>k. SingularJacobianError k \<notin> set (nl_out (nr_solve_loop la self1 Y w tol max_iter))) \<longrightarrow>
            length (nl_iteration_data (nr_solve_loop la self1 Y w tol max_iter)) = nat max_iter)"
proof -
  obtain types V P_spec Q_spec where e: "extract_bus_params self1 = (types, V, P_spec, Q_spec)"
    by (cases "extract_bus_params self1") auto
  define st0 where "st0 = \<lparr>nl_V = V, nl_iteration_data = [], nl_converged = False,
                 nl_max_mis = None, nl_out = w\<rparr>"
  define st where "st = nr_loop la (nr_n_buses self1) Y types P_spec Q_spec tol (nat max_iter) 0 st0"
  have l: "nr_solve_loop la self1 Y w tol max_iter = st"
    by (simp add: nr_solve_loop_def e st_def st0_def)
  have nc0: "\<not> nl_converged st0" by (simp add: st0_def)
  from nc have ncf: "\<not> nl_converged st" by (simp add: l)
  from it have pos: "0 < nat max_iter" by simp
  note r = nr_loop_not_converged [OF nc0 ncf [unfolded st_def], folded st_def]
  have i0: "nl_iteration_data st0 = []" by (simp add: st0_def)
  from r pos
  have m: "nl_max_mis st \<noteq> None"
    and len: "(\<forall>k. SingularJacobianError k \<notin> set (nl_out st)) \<longrightarrow>
        length (nl_iteration_data st) = nat max_iter"
    by (simp_all add: i0)
  from m obtain mm where mm: "nl_max_mis st = Some mm" by auto
  show ?thesis
    unfolding l using len ncf mm by (simp add: NR_solve_def build l Let_def)
qed

lemma NR_solve_zero_budget:
  assumes build: "NR_build_ybus self = Inr (Y, w, self1)" and it: "max_iter \<le> 0"
  shows "NR_solve la self tol max_iter = Inl UnboundLocalError"
proof -
  obtain types V P_spec Q_spec where e: "extract_bus_params self1 = (types, V, P_spec, Q_spec)"
    by (cases "extract_bus_params self1") auto
  from it have "nat max_iter = 0" by simp
  then show ?thesis
    by (simp add: NR_solve_def build nr_solve_loop_def e Let_def)
qed



text \<open>
  C2, as the code has it.  Once the admittance matrix is built, a loop of \<^verbatim>\<open>solve\<close>
  that ends with \<^verbatim>\<open>converged\<close> still false is followed by a normal return, in
  Newton-Raphson (with a budget of at least one pass) and in Gauss-Seidel: after a
  printed warning the method returns the pair of the voltage vector at the end of the
  loop and the iteration trace, and the pair has no third component.  When no singular
  Jacobian cut the loop short, the loop has added \<^verbatim>\<open>max_iter\<close> records to the trace.
\<close>

theorem nonconvergence_returns_pair:
  "(NR_build_ybus nr = Inr (Y, w, nr1) \<and> 0 < max_iter \<and>
    \<not> nl_converged (nr_solve_loop la nr1 Y w tol max_iter) \<longrightarrow>
      (\<exists>m. NR_solve la nr tol max_iter =
         Inr ([Voltages (nl_V (nr_solve_loop la nr1 Y w tol max_iter)),
               IterationData (nl_iteration_data (nr_solve_loop la nr1 Y w tol max_iter))],
              nl_out (nr_solve_loop la nr1 Y w tol max_iter) @
                [NRNotConvergedWarning max_iter, NRFinalMismatch m],
              nr1\<lparr>nr_V_final := Some (nl_V (nr_solve_loop la nr1 Y w tol max_iter)),
                    nr_iter_data :=
                      Some (nl_iteration_data (nr_solve_loop la nr1 Y w tol max_iter))\<rparr>)) \<and>
      ((\<forall>k. SingularJacobianError k \<notin> set (nl_out (nr_solve_loop la nr1 Y w tol max_iter))) \<longrightarrow>
         length (nl_iteration_data (nr_solve_loop la nr1 Y w tol max_iter)) = nat max_iter)) \<and>
   (GS_build_ybus gs = Inr (Y', gs1) \<and>
    \<not> gl_converged (gs_solve_loop gs1 Y' tol' max_iter' alpha) \<longrightarrow>
      GS_solve gs tol' max_iter' alpha =
        Inr ([Voltages (gl_V (gs_solve_loop gs1 Y' tol' max_iter' alpha)),
              IterationData (gl_iter_data (gs_solve_loop gs1 Y' tol' max_iter' alpha))],
             [GSNotConvergedWarning],
             gs1\<lparr>gs_V_final := Some (gl_V (gs_solve_loop gs1 Y' tol' max_iter' alpha)),
                   gs_iter_data := gl_iter_data (gs_solve_loop gs1 Y' tol' max_iter' alpha)\<rparr>) \<and>
      length (gl_iter_data (gs_solve_loop gs1 Y' tol' max_iter' alpha))
        = length (gs_iter_data gs) + nat max_iter')"
  (is "(?N \<longrightarrow> ?A) \<and> (?G \<longrightarrow> ?B)")
proof (rule conjI)
  show "?N \<longrightarrow> ?A"
  proof
    assume "?N"
    then have "NR_build_ybus nr = Inr (Y, w, nr1)" "0 < max_iter"
      "\<not> nl_converged (nr_solve_loop la nr1 Y w tol max_iter)"
      by simp_all
    then show "?A" by (rule NR_solve_not_converged)
  qed
  show "?G \<longrightarrow> ?B"
  proof
    assume "?G"
    then have b: "GS_build_ybus gs = Inr (Y', gs1)"
      and nc: "\<not> gl_converged (gs_solve_loop gs1 Y' tol' max_iter' alpha)"
      by simp_all
    from GS_build_ybus_fields [OF b] have i: "gs_iter_data gs1 = gs_iter_data gs" by simp
    from gs_solve_loop_trace [of gs1 Y' tol' max_iter' alpha] nc
    have l: "length (gl_iter_data (gs_solve_loop gs1 Y' tol' max_iter' alpha))
          = length (gs_iter_data gs) + nat max_iter'"
      unfolding i by auto
    from GS_solve_result [OF b, of tol' max_iter' alpha] nc
    have "GS_solve gs tol' max_iter' alpha =
          Inr ([Voltages (gl_V (gs_solve_loop gs1 Y' tol' max_iter' alpha)),
                IterationData (gl_iter_data (gs_solve_loop gs1 Y' tol' max_iter' alpha))],
               [GSNotConvergedWarning],
               gs1\<lparr>gs_V_final := Some (gl_V (gs_solve_loop gs1 Y' tol' max_iter' alpha)),
                     gs_iter_data := gl_iter_data (gs_solve_loop gs1 Y' tol' max_iter' alpha)\<rparr>)"
      by simp
    with l show "?B" by (rule conjI [rotated])
  qed
qed

section \<open>Runs on the example networks\<close>


lemma upt_2: "[0..<2] = [0, 1]"
  by (simp add: upt_rec numeral_2_eq_2)

lemma stamp_line_j:
  "stamp_line 2 (zeros 2) \<lparr>l_from = 1, l_to = 2, l_r = 0, l_x = 1, l_b = 0\<rparr> = Inr Y_j"
  by (simp add: stamp_line_def iadd_def np_index_def zeros_def Y_j_def Let_def complex_eq_iff
      Re_divide Im_divide numeral_2_eq_2)

lemma length_bus_data_pq2: "length bus_data_pq2 = 2"
  by (simp add: bus_data_pq2_def)

lemma length_bus_data_pv2: "length bus_data_pv2 = 2"
  by (simp add: bus_data_pv2_def)

lemma GS_build_ybus_pq2:
  "GS_build_ybus gs_pq2 = Inr (Y_j, gs_pq2\<lparr>gs_Ybus := Some Y_j\<rparr>)"
  by (simp add: GS_build_ybus_def gs_pq2_def GaussSeidel_init_def length_bus_data_pq2
      line_data_j_def stamp_line_j)

lemma GS_build_ybus_pv2:
  "GS_build_ybus gs_pv2 = Inr (Y_j, gs_pv2\<lparr>gs_Ybus := Some Y_j\<rparr>)"
  by (simp add: GS_build_ybus_def gs_pv2_def GaussSeidel_init_def length_bus_data_pv2
      line_data_j_def stamp_line_j)

lemma gs_initial_voltages_pq2: "gs_initial_voltages (gs_pq2\<lparr>gs_Ybus := Some Y_j\<rparr>) = V_start2"
  by (simp add: gs_initial_voltages_def gs_pq2_def GaussSeidel_init_def bus_data_pq2_def
      slack_unit_def gs_initial_voltage_def radians_def V_start2_def)

lemma gs_initial_voltages_pv2: "gs_initial_voltages (gs_pv2\<lparr>gs_Ybus := Some Y_j\<rparr>) = V_start2"
  by (simp add: gs_initial_voltages_def gs_pv2_def GaussSeidel_init_def bus_data_pv2_def
      slack_unit_def gs_initial_voltage_def radians_def V_start2_def)

lemma cmod_not_small: "c \<le> \<bar>Re z\<bar> \<Longrightarrow> \<not> cmod z < c"
  using abs_Re_le_cmod [of z] by linarith

lemma sumYV_start2: "sumYV Y_j V_start2 1 = \<i>"
  by (simp add: sumYV_def Y_j_def V_start2_def upt_2 complex_eq_iff)

lemma row_dot_start2: "row_dot Y_j V_start2 1 = Complex (- (5 / 100)) (5 / 100)"
  by (simp add: row_dot_def Y_j_def V_start2_def upt_2 complex_eq_iff)

lemma gs_pq_update_start2: "gs_pq_update Y_j 0 0 1 1 \<i> V_start2 = [1, 1]"
proof -
  have "\<not> cmod (V_start2 ! 1) < 1 / 10 ^ 12"
    by (rule cmod_not_small) (simp add: V_start2_def)
  then show ?thesis
    by (simp add: gs_pq_update_def Let_def) (simp add: V_start2_def Y_j_def complex_eq_iff Re_divide Im_divide)
qed


lemma sumYV_start2': "sumYV Y_j V_start2 (Suc 0) = \<i>"
  using sumYV_start2 by simp

lemma gs_pq_update_start2': "gs_pq_update Y_j 0 0 1 (Suc 0) \<i> V_start2 = [1, 1]"
  using gs_pq_update_start2 by simp

lemma row_dot_ones: "row_dot Y_j [1, 1] (Suc 0) = 0"
  by (simp add: row_dot_def Y_j_def upt_2 complex_eq_iff)

lemma mis_start2: "cmod (1 - V_start2 ! Suc 0) = cmod (Complex (1 / 20) (1 / 20))"
  by (simp add: V_start2_def complex_eq_iff) (simp add: cmod_def)

lemma gs_bus_step_pq2_slack:
  "gs_bus_step (gs_pq2\<lparr>gs_Ybus := Some Y_j\<rparr>) Y_j 1 V_start2 0 sw = sw"
  by (simp add: gs_bus_step_def Let_def gs_pq2_def GaussSeidel_init_def bus_data_pq2_def
      slack_unit_def)

lemma gs_bus_step_pq2:
  "gs_bus_step (gs_pq2\<lparr>gs_Ybus := Some Y_j\<rparr>) Y_j 1 V_start2 (Suc 0)
     \<lparr>sw_V = V_start2, sw_max_mis = 0, sw_max_power_mis = 0\<rparr>
   = \<lparr>sw_V = [1, 1], sw_max_mis = cmod (Complex (1 / 20) (1 / 20)), sw_max_power_mis = 0\<rparr>"
  by (simp add: gs_bus_step_def Let_def gs_pq2_def GaussSeidel_init_def bus_data_pq2_def
      sumYV_start2' gs_pq_update_start2' row_dot_ones mis_start2)

lemma Arg_one: "Arg 1 = 0"
  by (rule cis_Arg_unique) simp_all

lemma polar_display_ones: "polar_display [1, 1] = [(1, 0), (1, 0)]"
  by (simp add: polar_display_def degrees_def Arg_one)

lemma gs_body_pq2:
  "gs_body (gs_pq2\<lparr>gs_Ybus := Some Y_j\<rparr>) Y_j (1 / 10 ^ 6) 1 0
     \<lparr>gl_V = V_start2, gl_iter_data = [], gl_converged = False\<rparr>
   = Continue \<lparr>gl_V = [1, 1],
       gl_iter_data = [GSRecord 1 (cmod (Complex (1 / 20) (1 / 20))) 0 [(1, 0), (1, 0)]],
       gl_converged = False\<rparr>"
proof -
  have l: "length V_start2 = 2" by (simp add: V_start2_def)
  have n: "\<not> cmod (Complex (1 / 20) (1 / 20)) < 1 / 10 ^ 6"
    by (rule cmod_not_small) simp
  show ?thesis
    using n
    by (simp add: gs_body_def Let_def l upt_2 gs_bus_step_pq2_slack gs_bus_step_pq2
        polar_display_ones)
qed

lemma gs_solve_loop_pq2:
  "gs_solve_loop (gs_pq2\<lparr>gs_Ybus := Some Y_j\<rparr>) Y_j (1 / 10 ^ 6) 1 1
   = \<lparr>gl_V = [1, 1],
       gl_iter_data = [GSRecord 1 (cmod (Complex (1 / 20) (1 / 20))) 0 [(1, 0), (1, 0)]],
       gl_converged = False\<rparr>"
proof -
  have i: "gs_iter_data (gs_pq2\<lparr>gs_Ybus := Some Y_j\<rparr>) = []"
    by (simp add: gs_pq2_def GaussSeidel_init_def)
  show ?thesis
    by (simp add: gs_solve_loop_def Let_def gs_initial_voltages_pq2 i gs_body_pq2 [simplified])
qed


lemma upt_3: "[0..<3] = [0, 1, 2]"
  by (simp add: upt_rec numeral_3_eq_3)

lemma NR_build_ybus_unconnected:
  "NR_build_ybus nr_3bus_unconnected
     = Inr (zeros 3, [], nr_3bus_unconnected\<lparr>nr_Ybus := Some (zeros 3)\<rparr>)"
proof -
  have "length bus_data_3bus = 3" by (simp add: bus_data_3bus_def)
  then show ?thesis
    by (simp add: NR_build_ybus_def nr_3bus_unconnected_def NRLoadFlow_init_def)
qed

lemma extract_bus_params_unconnected:
  "extract_bus_params (nr_3bus_unconnected\<lparr>nr_Ybus := Some (zeros 3)\<rparr>)
     = ([1, 2, 3], V_3bus, P_spec_3bus, Q_spec_3bus)"
  by (simp add: extract_bus_params_def nr_3bus_unconnected_def NRLoadFlow_init_def
      bus_data_3bus_def Let_def upt_3 nr_initial_voltage_def radians_def V_3bus_def
      P_spec_3bus_def Q_spec_3bus_def complex_eq_iff)

lemma power_calculation_zeros:
  "power_calculation_vectorized (zeros 3) V_3bus = ([0, 0, 0], [0, 0, 0])"
  by (simp add: power_calculation_vectorized_def V_3bus_def upt_3 zeros_def numeral_3_eq_3)

lemma calc_power_mismatch_unconnected:
  "calc_power_mismatch (zeros 3) V_3bus P_spec_3bus Q_spec_3bus [1, 2, 3]
     = [1 / 2, - (8 / 10), - (4 / 10)]"
  by (simp add: calc_power_mismatch_def power_calculation_zeros P_spec_3bus_def Q_spec_3bus_def)

lemma nr_test_unconnected:
  "\<not> nr_converged_test (1 / 10 ^ 6) [1 / 2, - (8 / 10), - (4 / 10)]"
  by (simp add: nr_converged_test_def np_max_def)

lemma nr_solve_loop_unconnected:
  "\<not> nl_converged (nr_solve_loop linalg_zero (nr_3bus_unconnected\<lparr>nr_Ybus := Some (zeros 3)\<rparr>)
        (zeros 3) [] (1 / 10 ^ 6) 1) \<and>
   nl_out (nr_solve_loop linalg_zero (nr_3bus_unconnected\<lparr>nr_Ybus := Some (zeros 3)\<rparr>)
        (zeros 3) [] (1 / 10 ^ 6) 1) = []"
  using nr_test_unconnected
  by (simp add: nr_solve_loop_def extract_bus_params_unconnected nr_body_def Let_def
      calc_power_mismatch_unconnected nr_newton_step_def linalg_zero_def)

theorem nr_convergence_test_witness:
  "\<exists>st'. nr_body linalg_singular 3 (zeros 3) [1, 2, 3] P_spec_3bus Q_spec_3bus (1 / 10 ^ 6) 0
           nr_locals_3bus = Break st' \<and>
         \<not> nl_converged st' \<and> nl_out st' = [SingularJacobianError 1] \<and>
         length (nl_iteration_data st') = 1"
proof -
  have v: "nl_V nr_locals_3bus = V_3bus" and o: "nl_out nr_locals_3bus = []"
    and d: "nl_iteration_data nr_locals_3bus = []"
    by (simp_all add: nr_locals_3bus_def)
  have m: "[1 / 2, - (8 / 10), - (4 / 10)]
      = calc_power_mismatch (zeros 3) (nl_V nr_locals_3bus) P_spec_3bus Q_spec_3bus [1, 2, 3]"
    by (simp add: v calc_power_mismatch_unconnected)
  have nc: "\<not> nl_converged nr_locals_3bus" by (simp add: nr_locals_3bus_def)
  have ne: "[1 / 2, - (8 / 10), - (4 / 10)] \<noteq> ([]::real list)" by simp
  have nt: "\<not> (Max (set (map abs [1 / 2, - (8 / 10), - (4 / 10 :: real)])) < 1 / 10 ^ 6 \<and>
      sqrt (sum_list (map (\<lambda>m. m ^ 2) [1 / 2, - (8 / 10), - (4 / 10 :: real)]) /
        real (length [1 / 2, - (8 / 10), - (4 / 10 :: real)])) < 1 / 10 ^ 6 / 10)"
    using nr_test_unconnected
    by (simp add: nr_converged_test_def np_max_def rms_def np_mean_def)
  note th = nr_convergence_test [OF m nc refl refl refl refl refl refl refl refl,
      where la = linalg_singular and tol = "1 / 10 ^ 6" and n_buses = 3 and it = 0]
  from th [THEN conjunct2, rule_format, OF ne, THEN conjunct2, THEN conjunct2, rule_format, OF nt]
  show ?thesis
    using nc by (simp add: linalg_singular_def o d)
qed

lemma nr_converged_test_nonpositive_tol:
  assumes "tol \<le> 0"
  shows "\<not> nr_converged_test tol mismatch"
proof -
  have "0 \<le> sum_list (map (\<lambda>m. m ^ 2) mismatch)"
    by (rule sum_list_nonneg) auto
  then have "0 \<le> rms mismatch"
    by (simp add: rms_def np_mean_def)
  with assms show ?thesis
    by (simp add: nr_converged_test_def)
qed

text \<open>
  C5, as it is stated, fails: the largest absolute mismatch and the root mean square
  are not negative, so with the tolerance \<open>-1\<close> the two tests hold for no mismatch
  vector; yet the first pass of \<^verbatim>\<open>solve\<close> on the network of the Slack bus alone
  declares convergence, because the mismatch vector is empty, and \<^verbatim>\<open>solve\<close> returns
  without a non-convergence message.
\<close>

theorem convergence_declared_without_test:
  "nr_body linalg_singular 1 [[0]] [1] [0] [0] (- 1) 0 nr_locals_slack_only
     = Break (nr_locals_slack_only\<lparr>nl_converged := True\<rparr>) \<and>
   \<not> nr_converged_test (- 1)
       (calc_power_mismatch [[0]] (nl_V nr_locals_slack_only) [0] [0] [1]) \<and>
   NR_solve linalg_singular (NRLoadFlow_init bus_data_slack_only [] True) (- 1) 20
     = Inr ([Voltages [105 / 100], IterationData []], [],
            (NRLoadFlow_init bus_data_slack_only [] True)\<lparr>nr_Ybus := Some [[0]],
               nr_V_final := Some [105 / 100], nr_iter_data := Some []\<rparr>)"
proof (intro conjI)
  show "nr_body linalg_singular 1 [[0]] [1] [0] [0] (- 1) 0 nr_locals_slack_only
     = Break (nr_locals_slack_only\<lparr>nl_converged := True\<rparr>)"
    by (simp add: nr_body_def Let_def calc_power_mismatch_slack_only)
  show "\<not> nr_converged_test (- 1)
       (calc_power_mismatch [[0]] (nl_V nr_locals_slack_only) [0] [0] [1])"
    by (rule nr_converged_test_nonpositive_tol) simp
  let ?b = "\<lparr>b_no = 1, b_type = 1, b_vm = 105 / 100, b_va = 0, b_PG = 0, b_QG = 0,
       b_PL = 0, b_QL = 0, b_qlim = None\<rparr>"
  have t: "b_type ?b = 1" by simp
  have it: "(0::int) < 20" by simp
  have nb: "NR_build_ybus (NRLoadFlow_init [?b] [] True)
      = Inr ([[0]], [], (NRLoadFlow_init [?b] [] True)\<lparr>nr_Ybus := Some [[0]]\<rparr>)"
    by (simp add: NR_build_ybus_def NRLoadFlow_init_def zeros_def)
  from NR_solve_slack_only [OF t it nb, of linalg_singular "- 1"]
  show "NR_solve linalg_singular (NRLoadFlow_init bus_data_slack_only [] True) (- 1) 20
     = Inr ([Voltages [105 / 100], IterationData []], [],
            (NRLoadFlow_init bus_data_slack_only [] True)\<lparr>nr_Ybus := Some [[0]],
               nr_V_final := Some [105 / 100], nr_iter_data := Some []\<rparr>)"
    by (simp add: bus_data_slack_only_def radians_def)
qed

theorem iter_data_accumulates_witness:
  "\<exists>V1 new1 V2 new2 out2 self2.
     [Voltages [1, 1],
      IterationData [GSRecord 1 (cmod (Complex (1 / 20) (1 / 20))) 0 [(1, 0), (1, 0)]]]
       = [Voltages V1, IterationData new1] \<and> new1 \<noteq> [] \<and>
     GS_solve (gs_pq2\<lparr>gs_Ybus := Some Y_j, gs_V_final := Some [1, 1],
                 gs_iter_data :=
                   [GSRecord 1 (cmod (Complex (1 / 20) (1 / 20))) 0 [(1, 0), (1, 0)]]\<rparr>)
         (1 / 10 ^ 6) 50 1
       = Inr ([Voltages V2, IterationData (new1 @ new2)], out2, self2) \<and>
     gs_iter_data self2 = new1 @ new2"
proof -
  have first: "GS_solve gs_pq2 (1 / 10 ^ 6) 1 1
      = Inr ([Voltages [1, 1],
              IterationData [GSRecord 1 (cmod (Complex (1 / 20) (1 / 20))) 0 [(1, 0), (1, 0)]]],
             [GSNotConvergedWarning],
             gs_pq2\<lparr>gs_Ybus := Some Y_j, gs_V_final := Some [1, 1],
               gs_iter_data :=
                 [GSRecord 1 (cmod (Complex (1 / 20) (1 / 20))) 0 [(1, 0), (1, 0)]]\<rparr>)"
    using GS_solve_result [OF GS_build_ybus_pq2, of "1 / 10 ^ 6" 1 1]
    unfolding gs_solve_loop_pq2 by simp
  have e: "gs_iter_data gs_pq2 = []" by (simp add: gs_pq2_def GaussSeidel_init_def)
  have it: "(0::int) < 1" by simp
  from iter_data_accumulates [OF first, of "1 / 10 ^ 6" 50 1] it
  show ?thesis
    unfolding e by auto
qed

theorem nonconvergence_returns_pair_witness:
  "(\<exists>V tr m self'.
      NR_solve linalg_zero (NRLoadFlow_init bus_data_3bus [] True) (1 / 10 ^ 6) 1
        = Inr ([Voltages V, IterationData tr], [NRNotConvergedWarning 1, NRFinalMismatch m], self') \<and>
      length tr = 1) \<and>
   (\<exists>V tr self'.
      GS_solve (GaussSeidel_init bus_data_pq2 line_data_j 1) (1 / 10 ^ 6) 1 1
        = Inr ([Voltages V, IterationData tr], [GSNotConvergedWarning], self') \<and>
      length tr = 1)"
proof -
  have it: "(0::int) < 1" by simp
  have g: "\<not> gl_converged (gs_solve_loop (gs_pq2\<lparr>gs_Ybus := Some Y_j\<rparr>) Y_j (1 / 10 ^ 6) 1 1)"
    unfolding gs_solve_loop_pq2 by simp
  have gi: "gs_iter_data gs_pq2 = []"
    by (simp add: gs_pq2_def GaussSeidel_init_def)
  note th = nonconvergence_returns_pair [of nr_3bus_unconnected "zeros 3" "[]"
      "nr_3bus_unconnected\<lparr>nr_Ybus := Some (zeros 3)\<rparr>" 1 linalg_zero "1 / 10 ^ 6"
      gs_pq2 Y_j "gs_pq2\<lparr>gs_Ybus := Some Y_j\<rparr>" "1 / 10 ^ 6" 1 1]
  from th [THEN conjunct1] NR_build_ybus_unconnected it nr_solve_loop_unconnected
  have n: "\<exists>V tr m self'.
      NR_solve linalg_zero nr_3bus_unconnected (1 / 10 ^ 6) 1
        = Inr ([Voltages V, IterationData tr], [NRNotConvergedWarning 1, NRFinalMismatch m], self') \<and>
      length tr = 1"
    by auto
  from th [THEN conjunct2] GS_build_ybus_pq2 g gi
  have "\<exists>V tr self'.
      GS_solve gs_pq2 (1 / 10 ^ 6) 1 1
        = Inr ([Voltages V, IterationData tr], [GSNotConvergedWarning], self') \<and>
      length tr = 1"
    by auto
  with n show ?thesis
    by (simp add: nr_3bus_unconnected_def gs_pq2_def)
qed

text \<open>
  C2, as it is stated, fails: on two buses joined by a line of impedance \<open>j\<close>, one
  sweep of Gauss-Seidel moves the PQ bus by more than the tolerance, the budget of one
  iteration is used up without convergence, and what \<^verbatim>\<open>solve\<close> returns is the
  voltage vector and the trace, nothing else; that the run did not converge is only
  printed.
\<close>

theorem nonconvergence_without_flag:
  "GS_solve (GaussSeidel_init bus_data_pq2 line_data_j 1) (1 / 10 ^ 6) 1 1
     = Inr ([Voltages [1, 1],
             IterationData [GSRecord 1 (cmod (Complex (1 / 20) (1 / 20))) 0 [(1, 0), (1, 0)]]],
            [GSNotConvergedWarning],
            GaussSeidel_init bus_data_pq2 line_data_j 1
              \<lparr>gs_Ybus := Some Y_j, gs_V_final := Some [1, 1],
               gs_iter_data :=
                 [GSRecord 1 (cmod (Complex (1 / 20) (1 / 20))) 0 [(1, 0), (1, 0)]]\<rparr>)"
  using GS_solve_result [OF GS_build_ybus_pq2, of "1 / 10 ^ 6" 1 1]
  unfolding gs_solve_loop_pq2 by (simp add: gs_pq2_def)


section \<open>The PV bus in a Gauss-Seidel sweep\<close>


lemma gs_pv_Qi_start2:
  "gs_pv_Qi Y_j 1 (Some (- (19 / 20), - (19 / 20))) (Suc 0) V_start2 = - (19 / 20)"
  using row_dot_start2
  by (simp add: gs_pv_Qi_def Let_def clip_Q_def clip_def V_start2_def)

lemma gs_pv_solved_start2:
  "gs_pv_solved Y_j (- (1 / 20)) (- (19 / 20)) (Suc 0) \<i> V_start2 = 0"
  by (simp add: gs_pv_solved_def Let_def V_start2_def Y_j_def complex_eq_iff Re_divide Im_divide
      power2_eq_square)

lemma gs_pv_update_start2:
  "gs_pv_update Y_j 1 (- (1 / 20)) (Some (- (19 / 20), - (19 / 20))) (103 / 100) 1 (Suc 0) \<i> V_start2
     = [1, 0]"
proof -
  have "\<not> cmod (V_start2 ! Suc 0) < 1 / 10 ^ 12"
    by (rule cmod_not_small) (simp add: V_start2_def)
  then show ?thesis
    by (simp add: gs_pv_update_def Let_def gs_pv_Qi_start2 gs_pv_solved_start2 gs_pv_renorm_def)
      (simp add: V_start2_def)
qed

lemma row_dot_one_zero: "row_dot Y_j [1, 0] (Suc 0) = \<i>"
  by (simp add: row_dot_def Y_j_def upt_2 complex_eq_iff)

lemma mis_pv_start2: "cmod (V_start2 ! Suc 0) = cmod (Complex (19 / 20) (- (1 / 20)))"
  by (simp add: V_start2_def)

lemma gs_bus_step_pv2_slack:
  "gs_bus_step (gs_pv2\<lparr>gs_Ybus := Some Y_j\<rparr>) Y_j 1 V_start2 0 sw = sw"
  by (simp add: gs_bus_step_def Let_def gs_pv2_def GaussSeidel_init_def bus_data_pv2_def
      slack_unit_def)

lemma gs_bus_step_pv2:
  "gs_bus_step (gs_pv2\<lparr>gs_Ybus := Some Y_j\<rparr>) Y_j 1 V_start2 (Suc 0)
     \<lparr>sw_V = V_start2, sw_max_mis = 0, sw_max_power_mis = 0\<rparr>
   = \<lparr>sw_V = [1, 0], sw_max_mis = cmod (Complex (19 / 20) (- (1 / 20))),
      sw_max_power_mis = 1 / 20\<rparr>"
  by (simp add: gs_bus_step_def Let_def gs_pv2_def GaussSeidel_init_def bus_data_pv2_def
      sumYV_start2' gs_pv_update_start2 row_dot_one_zero mis_pv_start2)

lemma polar_display_one_zero: "polar_display [1, 0] = [(1, 0), (0, 0)]"
  by (simp add: polar_display_def degrees_def Arg_one Arg_zero)

lemma gs_body_pv2:
  "gs_body (gs_pv2\<lparr>gs_Ybus := Some Y_j\<rparr>) Y_j (1 / 10 ^ 6) 1 0
     \<lparr>gl_V = V_start2, gl_iter_data = [], gl_converged = False\<rparr>
   = Continue \<lparr>gl_V = [1, 0],
       gl_iter_data = [GSRecord 1 (cmod (Complex (19 / 20) (- (1 / 20)))) (1 / 20) [(1, 0), (0, 0)]],
       gl_converged = False\<rparr>"
proof -
  have l: "length V_start2 = 2" by (simp add: V_start2_def)
  have n: "\<not> cmod (Complex (19 / 20) (- (1 / 20))) < 1 / 10 ^ 6"
    by (rule cmod_not_small) simp
  show ?thesis
    using n
    by (simp add: gs_body_def Let_def l upt_2 gs_bus_step_pv2_slack gs_bus_step_pv2
        polar_display_one_zero)
qed

lemma gs_solve_loop_pv2:
  "gs_solve_loop (gs_pv2\<lparr>gs_Ybus := Some Y_j\<rparr>) Y_j (1 / 10 ^ 6) 1 1
   = \<lparr>gl_V = [1, 0],
       gl_iter_data = [GSRecord 1 (cmod (Complex (19 / 20) (- (1 / 20)))) (1 / 20) [(1, 0), (0, 0)]],
       gl_converged = False\<rparr>"
proof -
  have i: "gs_iter_data (gs_pv2\<lparr>gs_Ybus := Some Y_j\<rparr>) = []"
    by (simp add: gs_pv2_def GaussSeidel_init_def)
  show ?thesis
    by (simp add: gs_solve_loop_def Let_def gs_initial_voltages_pv2 i gs_body_pv2 [simplified])
qed

text \<open>
  C8, as it is stated, fails: with the PV bus of set-point 1.03 behind the line of
  impedance \<open>j\<close>, load \<open>P = 0.05\<close> and both reactive limits at \<open>-0.95\<close>, the voltage
  solved for in the first sweep is 0; the guard \<^verbatim>\<open>abs(V_new) > 1e-12\<close> leaves it
  as it is, and with \<open>\<alpha> = 1\<close> the bus ends the sweep at voltage 0, not at magnitude
  1.03.
\<close>

theorem pv_bus_not_renormalised:
  "GS_solve (GaussSeidel_init bus_data_pv2 line_data_j 1) (1 / 10 ^ 6) 1 1
     = Inr ([Voltages [1, 0],
             IterationData
               [GSRecord 1 (cmod (Complex (19 / 20) (- (1 / 20)))) (1 / 20) [(1, 0), (0, 0)]]],
            [GSNotConvergedWarning],
            GaussSeidel_init bus_data_pv2 line_data_j 1
              \<lparr>gs_Ybus := Some Y_j, gs_V_final := Some [1, 0],
               gs_iter_data :=
                 [GSRecord 1 (cmod (Complex (19 / 20) (- (1 / 20)))) (1 / 20) [(1, 0), (0, 0)]]\<rparr>) \<and>
   b_vm (bus_data_pv2 ! 1) = 103 / 100 \<and> cmod ([1, 0] ! 1) = 0"
  using GS_solve_result [OF GS_build_ybus_pv2, of "1 / 10 ^ 6" 1 1]
  unfolding gs_solve_loop_pv2 by (simp add: gs_pv2_def bus_data_pv2_def)


lemma clip_bounds: "lo \<le> hi \<Longrightarrow> lo \<le> clip a lo hi \<and> clip a lo hi \<le> hi"
  by (auto simp: clip_def)

lemma gs_pv_renorm_cmod:
  assumes "1 / 10 ^ 12 < cmod Vs"
  shows "cmod (of_real vset * (Vs / of_real (cmod Vs))) = \<bar>vset\<bar>"
proof -
  have "(0::real) < 1 / 10 ^ 12" by simp
  with assms have "0 < cmod Vs" by linarith
  then show ?thesis by (simp add: norm_mult norm_divide)
qed

lemma pv_update_sequence_aux:
  assumes t: "b_type (gs_bus_data self ! i) = 2" and i: "i < length (sw_V sw)"
    and b: "b = gs_bus_data self ! i" and V: "V = sw_V sw" and S: "Sbase = gs_Sbase self"
    and P: "P = b_PG b / Sbase - b_PL b / Sbase"
    and Qi: "Qi = clip_Q Sbase (b_qlim b) (Im (V ! i * cnj (row_dot Y V i)))"
    and V1: "V1 = (if cmod (V ! i) < 1 / 10 ^ 12 then Complex (b_vm b) 0 else V ! i)"
    and Vs: "Vs = (1 / Y ! i ! i) * (cnj (Complex P Qi) / cnj V1 - sumYV Y V i)"
    and Vn: "Vn = (if 1 / 10 ^ 12 < cmod Vs then of_real (b_vm b) * (Vs / of_real (cmod Vs))
                   else Vs)"
  shows "sw_V (gs_bus_step self Y alpha V_prev i sw) ! i
              = of_real alpha * Vn + of_real (1 - alpha) * V1 \<and>
            (1 / 10 ^ 12 < cmod Vs \<longrightarrow> cmod Vn = \<bar>b_vm b\<bar>) \<and>
            (\<forall>lo hi. b_qlim b = Some (lo, hi) \<and> lo / Sbase \<le> hi / Sbase \<longrightarrow>
               lo / Sbase \<le> Qi \<and> Qi \<le> hi / Sbase)"
proof (intro conjI)
  have u: "sw_V (gs_bus_step self Y alpha V_prev i sw)
      = gs_pv_update Y Sbase P (b_qlim b) (b_vm b) alpha i (sumYV Y V i) V"
    using t by (simp add: gs_bus_step_def Let_def b V S P)
  have q: "gs_pv_Qi Y Sbase (b_qlim b) i V = Qi"
    by (simp add: gs_pv_Qi_def Let_def Qi)
  from i have iV: "i < length V" by (simp add: V)
  define W where "W = (if cmod (V ! i) < 1 / 10 ^ 12 then V[i := Complex (b_vm b) 0] else V)"
  have w: "W ! i = V1" and lw: "i < length W"
    using iV by (simp_all add: W_def V1)
  have s: "gs_pv_solved Y P Qi i (sumYV Y V i) W = Vs"
    by (simp add: gs_pv_solved_def Let_def w Vs)
  have n: "gs_pv_renorm (b_vm b) Vs = Vn"
    by (simp add: gs_pv_renorm_def Vn)
  have "gs_pv_update Y Sbase P (b_qlim b) (b_vm b) alpha i (sumYV Y V i) V
      = W[i := of_real alpha * Vn + of_real (1 - alpha) * V1]"
    unfolding gs_pv_update_def Let_def q W_def [symmetric] s n w ..
  with lw show "sw_V (gs_bus_step self Y alpha V_prev i sw) ! i
      = of_real alpha * Vn + of_real (1 - alpha) * V1"
    by (simp add: u)
next
  show "1 / 10 ^ 12 < cmod Vs \<longrightarrow> cmod Vn = \<bar>b_vm b\<bar>"
  proof
    assume h: "1 / 10 ^ 12 < cmod Vs"
    then have "Vn = of_real (b_vm b) * (Vs / of_real (cmod Vs))" by (simp add: Vn)
    then show "cmod Vn = \<bar>b_vm b\<bar>"
      using gs_pv_renorm_cmod [OF h, of "b_vm b"] by simp
  qed
next
  show "\<forall>lo hi. b_qlim b = Some (lo, hi) \<and> lo / Sbase \<le> hi / Sbase \<longrightarrow>
      lo / Sbase \<le> Qi \<and> Qi \<le> hi / Sbase"
    by (auto simp: Qi clip_Q_def dest: clip_bounds)
qed

text \<open>
  C8, as the code has it.  In a sweep, the step at a PV bus (type 2) takes the
  reactive power from the present voltages, \<open>Im (V\<^sub>i * cnj (\<Sum>\<^sub>k Y\<^sub>i\<^sub>k V\<^sub>k))\<close>, clips it to
  the limits (so that it lies between them when they are ordered), re-seeds a voltage
  of magnitude below \<open>1e-12\<close> with the set-point, solves for the new voltage \<open>Vs\<close>, and
  then: when \<open>|Vs| > 1e-12\<close> it scales \<open>Vs\<close> to the magnitude of the set-point,
  otherwise it keeps \<open>Vs\<close> as solved; the result is blended with the old voltage by
  the factor \<open>\<alpha>\<close>.  The statement is for divisors other than zero (\<^verbatim>\<open>Sbase\<close>, the
  diagonal admittance, the voltage divided by), where the quotients of the reals are
  those of the code.
\<close>

theorem pv_update_sequence:
  assumes t: "b_type (gs_bus_data self ! i) = 2" and i: "i < length (sw_V sw)"
    and nz: "gs_Sbase self \<noteq> 0" "Y ! i ! i \<noteq> 0"
      "cmod (sw_V sw ! i) < 1 / 10 ^ 12 \<longrightarrow> b_vm (gs_bus_data self ! i) \<noteq> 0"
  shows "let b = gs_bus_data self ! i; V = sw_V sw; Sbase = gs_Sbase self;
             P = b_PG b / Sbase - b_PL b / Sbase;
             Qi = clip_Q Sbase (b_qlim b) (Im (V ! i * cnj (row_dot Y V i)));
             V1 = (if cmod (V ! i) < 1 / 10 ^ 12 then Complex (b_vm b) 0 else V ! i);
             Vs = (1 / Y ! i ! i) * (cnj (Complex P Qi) / cnj V1 - sumYV Y V i);
             Vn = (if 1 / 10 ^ 12 < cmod Vs then of_real (b_vm b) * (Vs / of_real (cmod Vs))
                   else Vs)
         in sw_V (gs_bus_step self Y alpha V_prev i sw) ! i
              = of_real alpha * Vn + of_real (1 - alpha) * V1 \<and>
            (1 / 10 ^ 12 < cmod Vs \<longrightarrow> cmod Vn = \<bar>b_vm b\<bar>) \<and>
            (\<forall>lo hi. b_qlim b = Some (lo, hi) \<and> lo / Sbase \<le> hi / Sbase \<longrightarrow>
               lo / Sbase \<le> Qi \<and> Qi \<le> hi / Sbase)"
  unfolding Let_def
  by (rule pv_update_sequence_aux [OF t i refl refl refl refl refl refl refl refl])

lemma gs_bus_step_pv2_free_Vs:
  "(1 / Y_j ! 1 ! 1) *
     (cnj (Complex (- (1 / 20)) (Im (V_start2 ! 1 * cnj (row_dot Y_j V_start2 1)))) /
        cnj (V_start2 ! 1) - sumYV Y_j V_start2 1)
   = Complex (19 / 20) (- (1 / 20))"
  unfolding row_dot_start2 sumYV_start2
  by (simp add: V_start2_def Y_j_def complex_eq_iff Re_divide Im_divide power2_eq_square)

theorem pv_update_sequence_witness:
  "cmod (sw_V (gs_bus_step (gs_pv2_free\<lparr>gs_Ybus := Some Y_j\<rparr>) Y_j 1 V_start2 1
           \<lparr>sw_V = V_start2, sw_max_mis = 0, sw_max_power_mis = 0\<rparr>) ! 1) = 103 / 100"
proof -
  let ?self = "gs_pv2_free\<lparr>gs_Ybus := Some Y_j\<rparr>"
  let ?sw = "\<lparr>sw_V = V_start2, sw_max_mis = 0, sw_max_power_mis = 0\<rparr>"
  let ?b = "\<lparr>b_no = 2, b_type = 2, b_vm = 103 / 100, b_va = 0, b_PG = 0,
       b_QG = 0, b_PL = 5 / 100, b_QL = 0, b_qlim = None\<rparr>"
  have b: "gs_bus_data ?self ! 1 = ?b"
    and sb: "gs_Sbase ?self = 1"
    by (simp_all add: gs_pv2_free_def GaussSeidel_init_def bus_data_pv2_free_def)
  have t: "b_type (gs_bus_data ?self ! 1) = 2" unfolding b by simp
  have i: "1 < length (sw_V ?sw)" by (simp add: V_start2_def)
  have s: "\<not> cmod (V_start2 ! 1) < 1 / 10 ^ 12"
    by (rule cmod_not_small) (simp add: V_start2_def)
  have g: "1 / 10 ^ 12 < cmod (Complex (19 / 20) (- (1 / 20)))"
    using abs_Re_le_cmod [of "Complex (19 / 20) (- (1 / 20))"] by simp
  have Vs: "(1 / Y_j ! 1 ! 1) *
     (cnj (Complex (b_PG ?b / 1 - b_PL ?b / 1)
            (clip_Q 1 (b_qlim ?b) (Im (sw_V ?sw ! 1 * cnj (row_dot Y_j (sw_V ?sw) 1))))) /
        cnj (if cmod (sw_V ?sw ! 1) < 1 / 10 ^ 12 then Complex (b_vm ?b) 0 else sw_V ?sw ! 1) -
      sumYV Y_j (sw_V ?sw) 1)
    = Complex (19 / 20) (- (1 / 20))"
    using s gs_bus_step_pv2_free_Vs by (simp add: clip_Q_def)
  have nz: "gs_Sbase ?self \<noteq> 0" "Y_j ! 1 ! 1 \<noteq> 0"
    "cmod (sw_V ?sw ! 1) < 1 / 10 ^ 12 \<longrightarrow> b_vm (gs_bus_data ?self ! 1) \<noteq> 0"
    unfolding b sb by (simp_all add: Y_j_def complex_eq_iff)
  note th = pv_update_sequence [OF t i nz, of 1 V_start2, unfolded Let_def b sb Vs]
  from th [THEN conjunct1] th [THEN conjunct2, THEN conjunct1] g show ?thesis
    by simp
qed

section \<open>The Fast-Decoupled class\<close>

text \<open>
  C1, as it is stated, fails: an instance of \<^verbatim>\<open>FastDecoupled\<close> has no \<^verbatim>\<open>solve\<close>;
  asking for it raises AttributeError.
\<close>

theorem fast_decoupled_has_no_solve:
  "FastDecoupled_getattr (FastDecoupled_init bus_data_3bus line_data_3bus 1) ''solve''
     = Inl AttributeError"
  by (simp add: FastDecoupled_getattr_def)

text \<open>
  C1, as the code has it.  The class \<^verbatim>\<open>FastDecoupled\<close> is its constructor: it keeps
  the bus table, the line table and \<^verbatim>\<open>Sbase\<close>, and sets \<^verbatim>\<open>Ybus\<close> and
  \<^verbatim>\<open>V_final\<close> to None, \<^verbatim>\<open>iter_data\<close> to the empty list and \<^verbatim>\<open>converged\<close> to
  False.  It has neither \<^verbatim>\<open>solve\<close> nor \<^verbatim>\<open>build_ybus\<close>: looking either up on an
  instance raises AttributeError, whatever the instance holds.
\<close>

theorem fast_decoupled_constructor_only:
  "fd_bus_data (FastDecoupled_init bus_data line_data Sbase) = bus_data \<and>
   fd_line_data (FastDecoupled_init bus_data line_data Sbase) = line_data \<and>
   fd_Sbase (FastDecoupled_init bus_data line_data Sbase) = Sbase \<and>
   fd_Ybus (FastDecoupled_init bus_data line_data Sbase) = None \<and>
   fd_V_final (FastDecoupled_init bus_data line_data Sbase) = None \<and>
   fd_iter_data (FastDecoupled_init bus_data line_data Sbase) = [] \<and>
   fd_converged (FastDecoupled_init bus_data line_data Sbase) = False \<and>
   FastDecoupled_getattr self ''solve'' = Inl AttributeError \<and>
   FastDecoupled_getattr self ''build_ybus'' = Inl AttributeError"
  by (simp add: FastDecoupled_init_def FastDecoupled_getattr_def)

end
